theory Spec2Isabelle
  imports Complex_Main "HOL-Library.Sublist" "HOL-Library.Multiset"
begin

chapter \<open>The model\<close>

section \<open>Strings\<close>

text \<open>
  A JavaScript string is modelled as a \<^typ>\<open>string\<close>: the list of its code units, each
  in the range U+0000 .. U+00FF that \<^typ>\<open>char\<close> covers. Case mapping and white space are
  the ones of \<^verbatim>\<open>String.prototype.toLowerCase\<close> and \<^verbatim>\<open>String.prototype.trim\<close> on that
  range. A value that may be \<^verbatim>\<open>undefined\<close> or \<^verbatim>\<open>null\<close> is an \<^typ>\<open>'a option\<close>.
\<close>

definition lower_char :: "char \<Rightarrow> char" where
  "lower_char c =
     (let n = (of_char c :: nat)
      in if (65 \<le> n \<and> n \<le> 90) \<or> (192 \<le> n \<and> n \<le> 222 \<and> n \<noteq> 215)
         then char_of (n + 32) else c)"

definition toLowerCase :: "string \<Rightarrow> string" where
  "toLowerCase s = map lower_char s"

definition is_space :: "char \<Rightarrow> bool" where
  "is_space c = ((of_char c :: nat) \<in> set [9, 10, 11, 12, 13, 32, 160])"

definition trim :: "string \<Rightarrow> string" where
  "trim s = rev (dropWhile is_space (rev (dropWhile is_space s)))"

text \<open>\<^verbatim>\<open>s.startsWith(p)\<close> and \<^verbatim>\<open>s.includes(t)\<close>.\<close>

definition startsWith :: "string \<Rightarrow> string \<Rightarrow> bool" where
  "startsWith s p = (take (length p) s = p)"

fun str_includes :: "string \<Rightarrow> string \<Rightarrow> bool" where
  "str_includes [] t = (t = [])"
| "str_includes (x # xs) t = (startsWith (x # xs) t \<or> str_includes xs t)"

text \<open>
  Truthiness of a string that may be missing: \<^verbatim>\<open>undefined\<close>, \<^verbatim>\<open>null\<close> and the empty
  string are falsy. \<open>or_str a d\<close> is \<^verbatim>\<open>a || d\<close> for a string default \<open>d\<close>, and
  \<open>or_opt a b\<close> is \<^verbatim>\<open>a || b\<close> when \<open>b\<close> may be missing too.
\<close>

fun truthy :: "string option \<Rightarrow> bool" where
  "truthy None = False"
| "truthy (Some s) = (s \<noteq> [])"

definition or_str :: "string option \<Rightarrow> string \<Rightarrow> string" where
  "or_str a d = (if truthy a then the a else d)"

definition or_opt :: "string option \<Rightarrow> string option \<Rightarrow> string option" where
  "or_opt a b = (if truthy a then a else b)"

section \<open>Cards\<close>

text \<open>
  The card record, with the fields the functions read. A field that a card may lack is
  an option; \<open>possibleNsfw\<close> is a boolean flag (a missing flag is \<open>False\<close>).
\<close>

record card =
  name :: "string option"
  creator :: "string option"
  tags :: "string list option"
  desc_search :: "string option"
  desc_preview :: "string option"
  description :: "string option"
  possibleNsfw :: bool
  avatar_url :: "string option"
  image_url :: "string option"
  service :: "string option"
  sourceService :: "string option"

section \<open>deduplicateCards\<close>

text \<open>
  The key of a card, as the loop body builds it:
  \<^verbatim>\<open>(card.name || '').toLowerCase().trim()\<close>, a bar, and
  \<^verbatim>\<open>(card.creator || 'unknown').toLowerCase().trim()\<close>.
\<close>

definition card_key :: "'a card_scheme \<Rightarrow> string" where
  "card_key c =
     (let normalizedName = trim (toLowerCase (or_str (name c) ''''));
          normalizedCreator = trim (toLowerCase (or_str (creator c) ''unknown''))
      in normalizedName @ ''|'' @ normalizedCreator)"

text \<open>
  The \<^verbatim>\<open>for (const card of cards)\<close> loop, with its two variables: the map \<open>seen\<close>
  from keys to the first card with that key, and the array \<open>deduplicated\<close>. The
  calls of \<^verbatim>\<open>console.log\<close> do not change either and are left out.
\<close>

fun dedup_loop :: "card list \<Rightarrow> (string \<rightharpoonup> card) \<Rightarrow> card list \<Rightarrow> card list" where
  "dedup_loop [] seen deduplicated = deduplicated"
| "dedup_loop (c # cs) seen deduplicated =
     (let key = card_key c
      in case seen key of
           Some firstCard \<Rightarrow> dedup_loop cs seen deduplicated
         | None \<Rightarrow> dedup_loop cs (seen(key \<mapsto> c)) (deduplicated @ [c]))"

definition deduplicateCards :: "card list \<Rightarrow> card list" where
  "deduplicateCards cards = dedup_loop cards Map.empty []"

text \<open>
  The loop seen from outside, for the proofs: a card is kept when its key is not in the
  set \<open>S\<close> of the keys met so far.
\<close>

fun first_by_key :: "string set \<Rightarrow> card list \<Rightarrow> card list" where
  "first_by_key S [] = []"
| "first_by_key S (c # cs) =
     (if card_key c \<in> S then first_by_key S cs
      else c # first_by_key (insert (card_key c) S) cs)"

text \<open>
  The specification of \<open>deduplicateCards\<close>, apart from the code. \<open>first_occurrences\<close>
  keeps the cards whose key occurs at no earlier position of the list. \<open>stated_key\<close>
  is the key with its defaults for a field that the card does not have: the name in
  lower case and trimmed (the empty string when there is no name), a bar, and the
  creator in lower case and trimmed (\<open>unknown\<close> when there is no creator).
  \<open>normalized_key\<close> also takes \<open>unknown\<close> for a creator that is the empty string.
\<close>

definition first_occurrences :: "(card \<Rightarrow> string) \<Rightarrow> card list \<Rightarrow> card list" where
  "first_occurrences key cards =
     map (\<lambda>i. cards ! i)
       (filter (\<lambda>i. key (cards ! i) \<notin> set (map key (take i cards))) [0..<length cards])"

definition stated_key :: "card \<Rightarrow> string" where
  "stated_key c =
     trim (toLowerCase (case name c of None \<Rightarrow> '''' | Some n \<Rightarrow> n)) @ ''|'' @
     trim (toLowerCase (case creator c of None \<Rightarrow> ''unknown'' | Some a \<Rightarrow> a))"

definition normalized_key :: "card \<Rightarrow> string" where
  "normalized_key c =
     trim (toLowerCase (case name c of None \<Rightarrow> '''' | Some n \<Rightarrow> n)) @ ''|'' @
     trim (toLowerCase
       (case creator c of None \<Rightarrow> ''unknown'' | Some a \<Rightarrow> if a = '''' then ''unknown'' else a))"

section \<open>sortCards\<close>

text \<open>
  \<^verbatim>\<open>Array.prototype.sort(cmp)\<close> sorts an array in place and is stable (ECMAScript 2019):
  elements that \<open>cmp\<close> does not order keep their relative positions. It is modelled
  by insertion from the right, where an element is put in front of the first element it
  does not have to follow (\<open>cmp x y \<le> 0\<close>).
\<close>

fun insert_sorted :: "('a \<Rightarrow> 'a \<Rightarrow> int) \<Rightarrow> 'a \<Rightarrow> 'a list \<Rightarrow> 'a list" where
  "insert_sorted cmp x [] = [x]"
| "insert_sorted cmp x (y # ys) =
     (if cmp x y \<le> 0 then x # y # ys else y # insert_sorted cmp x ys)"

definition array_sort :: "('a \<Rightarrow> 'a \<Rightarrow> int) \<Rightarrow> 'a list \<Rightarrow> 'a list" where
  "array_sort cmp xs = foldr (insert_sorted cmp) xs []"

text \<open>
  Arrays are objects: a variable holds a reference, and two variables may hold the same
  one. The store is the list of the arrays allocated so far, a reference is an index
  into it. \<open>spread\<close> is \<^verbatim>\<open>[...cards]\<close>, which allocates a new array with the
  elements of the old one; \<open>sort_in_place\<close> is \<^verbatim>\<open>sorted.sort(cmp)\<close>, which
  overwrites the array it is called on and returns the same reference.
\<close>

type_synonym 'a store = "'a list list"

definition spread :: "'a store \<Rightarrow> nat \<Rightarrow> 'a store \<times> nat" where
  "spread h r = (h @ [h ! r], length h)"

definition sort_in_place :: "('a \<Rightarrow> 'a \<Rightarrow> int) \<Rightarrow> 'a store \<Rightarrow> nat \<Rightarrow> 'a store \<times> nat" where
  "sort_in_place cmp h r = (h[r := array_sort cmp (h ! r)], r)"

definition deref :: "'a store \<times> nat \<Rightarrow> 'a list" where
  "deref p = fst p ! snd p"

text \<open>
  \<open>sortCards\<close>. The comparison of strings, \<^verbatim>\<open>a.localeCompare(b)\<close>, depends on the
  locale of the host and is a parameter: a negative number when \<open>a\<close> comes first, a
  positive one when \<open>b\<close> does, zero otherwise. \<open>cards\<close> is a reference into the
  store \<open>h\<close>; the result is the store afterwards and the reference returned.
\<close>

definition sortCards ::
  "(string \<Rightarrow> string \<Rightarrow> int) \<Rightarrow> card store \<Rightarrow> nat \<Rightarrow> string \<Rightarrow> card store \<times> nat" where
  "sortCards localeCompare h cards sortBy =
     (case spread h cards of (h1, sorted_copy) \<Rightarrow>
        if sortBy = ''name_asc'' then
          sort_in_place (\<lambda>a b. localeCompare (or_str (name a) '''') (or_str (name b) '''')) h1 sorted_copy
        else if sortBy = ''name_desc'' then
          sort_in_place (\<lambda>a b. localeCompare (or_str (name b) '''') (or_str (name a) '''')) h1 sorted_copy
        else if sortBy = ''creator_asc'' then
          sort_in_place (\<lambda>a b. localeCompare (or_str (creator a) '''') (or_str (creator b) '''')) h1 sorted_copy
        else if sortBy = ''creator_desc'' then
          sort_in_place (\<lambda>a b. localeCompare (or_str (creator b) '''') (or_str (creator a) '''')) h1 sorted_copy
        else if sortBy \<in> set [''recent'', ''trending'', ''rating'', ''stars'', ''downloads'',
                               ''favorites'', ''newcomer'', ''activity'', ''default''] then
          (h1, sorted_copy)
        else
          (h1, sorted_copy))"

text \<open>
  What \<open>sortCards\<close> needs of \<^verbatim>\<open>localeCompare\<close>, and what every collation gives: the
  sign is reversed when the arguments are swapped, and "not after" is transitive.
\<close>

definition consistent_comparator :: "('a \<Rightarrow> 'a \<Rightarrow> int) \<Rightarrow> bool" where
  "consistent_comparator cmp \<longleftrightarrow>
     (\<forall>a b. (cmp a b < 0) = (0 < cmp b a)) \<and>
     (\<forall>a b c. cmp a b \<le> 0 \<and> cmp b c \<le> 0 \<longrightarrow> cmp a c \<le> 0)"

text \<open>
  \<open>ys\<close> is the stable sort of \<open>xs\<close> by \<open>cmp\<close>: a permutation of \<open>xs\<close>, in which no
  element has to follow a later one, and in which the elements that compare equal to any
  given \<open>c\<close> stand in the order they have in \<open>xs\<close>.
\<close>

definition stable_sort_of :: "('a \<Rightarrow> 'a \<Rightarrow> int) \<Rightarrow> 'a list \<Rightarrow> 'a list \<Rightarrow> bool" where
  "stable_sort_of cmp xs ys \<longleftrightarrow>
     mset ys = mset xs \<and>
     sorted_wrt (\<lambda>a b. cmp a b \<le> 0) ys \<and>
     (\<forall>c. filter (\<lambda>x. cmp x c = 0) ys = filter (\<lambda>x. cmp x c = 0) xs)"

text \<open>
  An instance of the parameter for the examples: strings compared code unit by code
  unit, a prefix before its extensions.
\<close>

fun codeunit_compare :: "string \<Rightarrow> string \<Rightarrow> int" where
  "codeunit_compare [] [] = 0"
| "codeunit_compare [] (y # ys) = - 1"
| "codeunit_compare (x # xs) [] = 1"
| "codeunit_compare (x # xs) (y # ys) =
     (if (of_char x :: nat) < of_char y then - 1
      else if (of_char y :: nat) < of_char x then 1
      else codeunit_compare xs ys)"

section \<open>Example data\<close>

text \<open>A card with no field set, and three cards for the examples.\<close>

definition blank_card :: card where
  "blank_card =
     \<lparr>name = None, creator = None, tags = None, desc_search = None, desc_preview = None,
      description = None, possibleNsfw = False, avatar_url = None, image_url = None,
      service = None, sourceService = None\<rparr>"

definition bob_x :: card where
  "bob_x = blank_card\<lparr>name := Some ''Bob'', creator := Some ''x''\<rparr>"

definition al :: card where
  "al = blank_card\<lparr>name := Some ''Al''\<rparr>"

definition bob_y :: card where
  "bob_y = blank_card\<lparr>name := Some ''Bob'', creator := Some ''y''\<rparr>"

section \<open>Errors and effects\<close>

text \<open>
  An exception is a value: \<open>TypeError\<close> for a property read on \<^verbatim>\<open>undefined\<close> or
  \<^verbatim>\<open>null\<close>, \<open>Error msg\<close> for \<^verbatim>\<open>new Error(msg)\<close>, \<open>Rejected msg\<close> for a
  promise of the host (a network request, the body of a response, a loader) that
  rejects. A function that may throw returns \<open>error + 'a\<close>. What a function writes
  to the console or shows as a toast is the list of its effects, in order.
\<close>

datatype error = TypeError | Error string | Rejected string

datatype effect =
    ConsoleLog string
  | ConsoleError string
  | ToastInfo string
  | ToastWarning string
  | ToastError string

fun is_toast :: "effect \<Rightarrow> bool" where
  "is_toast (ToastInfo m) = True"
| "is_toast (ToastWarning m) = True"
| "is_toast (ToastError m) = True"
| "is_toast (ConsoleLog m) = False"
| "is_toast (ConsoleError m) = False"

section \<open>filterCards\<close>

text \<open>
  The filter state, the settings of the extension, and \<^verbatim>\<open>extension_settings\<close>, the
  object that maps the name of an extension to its settings. \<^verbatim>\<open>fuse\<close> is the search
  index of the host when there is one: \<^verbatim>\<open>fuse.search(q).map(result => result.item)\<close>
  is a function from the query to the cards found.
\<close>

record filters =
  filter_search :: "string option"
  filter_tags :: "string list"
  filter_creator :: "string option"

record settings =
  hideNsfw :: bool
  tagBlocklist :: "string list option"

text \<open>
  The callback of \<^verbatim>\<open>filteredCards.filter\<close>, block by block in the order of the
  source; each block returns \<^verbatim>\<open>false\<close> for a card it rejects. First the tag filter and
  the creator filter.
\<close>

definition fails_tag_filter :: "filters \<Rightarrow> card \<Rightarrow> bool" where
  "fails_tag_filter flt c =
     (length (filter_tags flt) > 0 \<and>
      (case tags c of
         None \<Rightarrow> True
       | Some card_tags \<Rightarrow> \<not> list_all (\<lambda>tag. tag \<in> set card_tags) (filter_tags flt)))"

definition fails_creator_filter :: "filters \<Rightarrow> card \<Rightarrow> bool" where
  "fails_creator_filter flt c = (truthy (filter_creator flt) \<and> creator c \<noteq> filter_creator flt)"

text \<open>
  The blocklist block: \<^verbatim>\<open>tagBlocklist || []\<close>, the terms normalised, and the three
  checks (tags, description, name) when a term is left.
\<close>

definition blocked_by_blocklist :: "settings \<Rightarrow> card \<Rightarrow> bool" where
  "blocked_by_blocklist st c =
     (let blocklist = (case tagBlocklist st of None \<Rightarrow> [] | Some b \<Rightarrow> b) in
      if length blocklist > 0 then
        let normalizedBlocklist =
              filter (\<lambda>term. length term > 0) (map (\<lambda>term. trim (toLowerCase term)) blocklist)
        in
        if length normalizedBlocklist > 0 then
          if (case tags c of
                None \<Rightarrow> False
              | Some card_tags \<Rightarrow>
                  let normalizedTags = map (\<lambda>tag. trim (toLowerCase tag)) card_tags
                  in list_ex (\<lambda>blocked. blocked \<in> set normalizedTags) normalizedBlocklist)
          then True
          else
            let desc = toLowerCase
                  (or_str (or_opt (or_opt (desc_search c) (desc_preview c)) (description c)) '''')
            in
            if list_ex (\<lambda>blocked. str_includes desc blocked) normalizedBlocklist then True
            else
              let card_name = toLowerCase (or_str (name c) '''') in
              if list_ex (\<lambda>blocked. str_includes card_name blocked) normalizedBlocklist
              then True
              else False
        else False
      else False)"

text \<open>
  The whole callback. Reading \<^verbatim>\<open>extension_settings[extensionName].hideNsfw\<close> throws
  when the extension has no settings, which happens only for a card that the tag and
  creator filters have let through.
\<close>

definition card_passes ::
  "filters \<Rightarrow> string \<Rightarrow> (string \<rightharpoonup> settings) \<Rightarrow> card \<Rightarrow> error + bool" where
  "card_passes flt extensionName extension_settings c =
     (if fails_tag_filter flt c then Inr False
      else if fails_creator_filter flt c then Inr False
      else case extension_settings extensionName of
        None \<Rightarrow> Inl TypeError
      | Some st \<Rightarrow>
          if hideNsfw st \<and> possibleNsfw c then Inr False
          else if blocked_by_blocklist st c then Inr False
          else Inr True)"

text \<open>
  \<^verbatim>\<open>Array.prototype.filter\<close> with a callback that may throw: the first exception ends
  the whole call.
\<close>

fun filter_throwing :: "('a \<Rightarrow> error + bool) \<Rightarrow> 'a list \<Rightarrow> error + 'a list" where
  "filter_throwing p [] = Inr []"
| "filter_throwing p (x # xs) =
     (case p x of
        Inl e \<Rightarrow> Inl e
      | Inr keep \<Rightarrow>
          (case filter_throwing p xs of
             Inl e \<Rightarrow> Inl e
           | Inr ys \<Rightarrow> Inr (if keep then x # ys else ys)))"

definition filterCards ::
  "card list \<Rightarrow> filters \<Rightarrow> (string \<Rightarrow> card list) option \<Rightarrow> string \<Rightarrow>
   (string \<rightharpoonup> settings) \<Rightarrow> error + card list" where
  "filterCards cards flt fuse extensionName extension_settings =
     (let filteredCards =
            (case fuse of
               Some fuse_search \<Rightarrow>
                 if truthy (filter_search flt) then fuse_search (the (filter_search flt)) else cards
             | None \<Rightarrow> cards)
      in filter_throwing (card_passes flt extensionName extension_settings) filteredCards)"

text \<open>
  The filters in the words of the specification, for a card \<open>c\<close>, the filter state and
  the settings \<open>st\<close> of the extension: the selected tags are all among the tags of the
  card, the creator is the selected one, the card is not hidden as NSFW, and no term of
  the normalised blocklist is a normalised tag of the card or a part of its lower-case
  description or name.
\<close>

definition normalized_blocklist :: "settings \<Rightarrow> string list" where
  "normalized_blocklist st =
     filter (\<lambda>term. term \<noteq> [])
       (map (\<lambda>term. trim (toLowerCase term)) (case tagBlocklist st of None \<Rightarrow> [] | Some b \<Rightarrow> b))"

definition card_description :: "card \<Rightarrow> string" where
  "card_description c =
     (if truthy (desc_search c) then the (desc_search c)
      else if truthy (desc_preview c) then the (desc_preview c)
      else if truthy (description c) then the (description c)
      else '''')"

definition matches_all_filters :: "filters \<Rightarrow> settings \<Rightarrow> card \<Rightarrow> bool" where
  "matches_all_filters flt st c \<longleftrightarrow>
     (filter_tags flt \<noteq> [] \<longrightarrow>
        (\<exists>card_tags. tags c = Some card_tags \<and> set (filter_tags flt) \<subseteq> set card_tags)) \<and>
     (truthy (filter_creator flt) \<longrightarrow> creator c = filter_creator flt) \<and>
     \<not> (hideNsfw st \<and> possibleNsfw c) \<and>
     (\<forall>blocked \<in> set (normalized_blocklist st).
        (\<forall>card_tags. tags c = Some card_tags \<longrightarrow>
           blocked \<notin> set (map (\<lambda>tag. trim (toLowerCase tag)) card_tags)) \<and>
        \<not> sublist blocked (toLowerCase (card_description c)) \<and>
        \<not> sublist blocked (toLowerCase (or_str (name c) '''')))"

text \<open>Cards, a filter state and settings for the example of \<open>filterCards\<close>.\<close>

definition elf :: card where
  "elf = blank_card\<lparr>name := Some ''Elf Queen'', creator := Some ''x'',
                      tags := Some [''fantasy'', ''elf'']\<rparr>"

definition example_cards :: "card list" where
  "example_cards =
     [elf,
      elf\<lparr>tags := Some [''fantasy'', '' GORE '']\<rparr>,
      elf\<lparr>creator := Some ''y''\<rparr>,
      elf\<lparr>tags := None\<rparr>,
      elf\<lparr>possibleNsfw := True\<rparr>,
      elf\<lparr>desc_preview := Some ''Blood and Gore''\<rparr>,
      elf\<lparr>name := Some ''Gorespawn''\<rparr>]"

definition example_filters :: filters where
  "example_filters =
     \<lparr>filter_search = None, filter_tags = [''fantasy''], filter_creator = Some ''x''\<rparr>"

definition example_settings :: settings where
  "example_settings = \<lparr>hideNsfw = True, tagBlocklist = Some [''  Gore'', ''  '']\<rparr>"

section \<open>getRandomCard\<close>

text \<open>
  The callback of the three \<^verbatim>\<open>filter\<close> calls: the image of a card is
  \<^verbatim>\<open>card.avatar_url || card.image_url\<close>, and the card is a candidate when that string
  is there, is not blank and starts with \<^verbatim>\<open>http://\<close> or \<^verbatim>\<open>https://\<close>.
\<close>

definition has_image :: "card \<Rightarrow> bool" where
  "has_image c =
     (let imageUrl = or_opt (avatar_url c) (image_url c)
      in truthy imageUrl \<and> length (trim (the imageUrl)) > 0 \<and>
         (startsWith (the imageUrl) ''http://'' \<or> startsWith (the imageUrl) ''https://''))"

definition serviceNames :: "string list" where
  "serviceNames =
     [''anchorhold'', ''catbox'', ''character_tavern'', ''chub'', ''nyai_me'', ''risuai_realm'',
      ''webring'', ''mlpchag'', ''desuarchive'']"

text \<open>
  The loop over the services: \<^verbatim>\<open>await loadServiceIndexFunc(service)\<close> gives the cards
  of a service or throws; each card is copied with \<^verbatim>\<open>sourceService\<close> set, and the
  candidates among the copies are appended to \<open>cards\<close>.
\<close>

fun load_all ::
  "(string \<Rightarrow> error + card list) \<Rightarrow> string list \<Rightarrow> card list \<Rightarrow> error + card list" where
  "load_all loadServiceIndexFunc [] cards = Inr cards"
| "load_all loadServiceIndexFunc (service_name # rest) cards =
     (case loadServiceIndexFunc service_name of
        Inl e \<Rightarrow> Inl e
      | Inr serviceCards \<Rightarrow>
          let cardsWithSource =
                filter has_image (map (\<lambda>card. card\<lparr>sourceService := Some service_name\<rparr>) serviceCards)
          in load_all loadServiceIndexFunc rest (cards @ cardsWithSource))"

text \<open>
  The three branches that fill \<open>cards\<close>, with the toast of the second one.
  \<open>currentCards\<close> is \<open>None\<close> when the caller passes no array: reading its length or
  calling its \<^verbatim>\<open>filter\<close> then throws, in the branches that do so.
\<close>

fun gather_cards ::
  "string option \<Rightarrow> card list option \<Rightarrow> (string \<Rightarrow> error + card list) \<Rightarrow>
   effect list \<times> (error + card list)" where
  "gather_cards source None loadServiceIndexFunc =
     (if source = Some ''current'' then ([], Inl TypeError)
      else if source = Some ''all'' \<or> \<not> truthy source then
        ([ToastInfo ''Loading all cards...''], load_all loadServiceIndexFunc serviceNames [])
      else ([], Inl TypeError))"
| "gather_cards source (Some currentCards) loadServiceIndexFunc =
     (if source = Some ''current'' \<and> length currentCards > 0 then
        ([], Inr (filter has_image currentCards))
      else if source = Some ''all'' \<or> \<not> truthy source then
        ([ToastInfo ''Loading all cards...''], load_all loadServiceIndexFunc serviceNames [])
      else ([], Inr (filter has_image currentCards)))"

text \<open>
  \<open>getRandomCard\<close>: the card returned (\<open>None\<close> for \<^verbatim>\<open>null\<close>) and the effects.
  \<open>random\<close> is the value of \<^verbatim>\<open>Math.random()\<close>, taken as a real number; the index is
  \<^verbatim>\<open>Math.floor(random * cards.length)\<close>. An index outside the array gives
  \<^verbatim>\<open>undefined\<close>, and reading its name throws. Every exception ends in the
  \<^verbatim>\<open>catch\<close> block.
\<close>

definition on_catch :: "effect list \<Rightarrow> card option \<times> effect list" where
  "on_catch fx =
     (None, fx @ [ConsoleError ''[Bot Browser] Error getting random card:'',
                  ToastError ''Failed to get random card''])"

definition getRandomCard ::
  "string option \<Rightarrow> card list option \<Rightarrow> (string \<Rightarrow> error + card list) \<Rightarrow> real \<Rightarrow>
   card option \<times> effect list" where
  "getRandomCard source currentCards loadServiceIndexFunc random =
     (case gather_cards source currentCards loadServiceIndexFunc of
        (fx, Inl e) \<Rightarrow> on_catch fx
      | (fx, Inr cards) \<Rightarrow>
          if length cards = 0 then (None, fx @ [ToastWarning ''No cards available''])
          else
            let randomIndex = \<lfloor>random * real (length cards)\<rfloor> in
            if 0 \<le> randomIndex \<and> randomIndex < int (length cards) then
              (Some (cards ! nat randomIndex),
               fx @ [ConsoleLog ''[Bot Browser] Selected random card:''])
            else on_catch fx)"

text \<open>
  The specification of \<open>getRandomCard\<close>, apart from the code. A web address is a
  string that is not blank and begins with \<^verbatim>\<open>http://\<close> or \<^verbatim>\<open>https://\<close>.
  \<open>stated_candidate\<close> is a card one of whose two fields \<^verbatim>\<open>avatar_url\<close> and
  \<^verbatim>\<open>image_url\<close> holds a web address. \<open>candidate\<close> looks at one string only, the
  image of the card: its \<^verbatim>\<open>avatar_url\<close> when the card has one that is not empty, its
  \<^verbatim>\<open>image_url\<close> otherwise.
\<close>

definition web_address :: "string \<Rightarrow> bool" where
  "web_address u \<longleftrightarrow> trim u \<noteq> [] \<and> (prefix ''http://'' u \<or> prefix ''https://'' u)"

definition stated_candidate :: "card \<Rightarrow> bool" where
  "stated_candidate c \<longleftrightarrow>
     (case avatar_url c of None \<Rightarrow> False | Some u \<Rightarrow> web_address u) \<or>
     (case image_url c of None \<Rightarrow> False | Some u \<Rightarrow> web_address u)"

definition card_image :: "card \<Rightarrow> string option" where
  "card_image c =
     (case avatar_url c of
        None \<Rightarrow> image_url c
      | Some u \<Rightarrow> if u = [] then image_url c else Some u)"

definition candidate :: "card \<Rightarrow> bool" where
  "candidate c \<longleftrightarrow> (case card_image c of None \<Rightarrow> False | Some u \<Rightarrow> web_address u)"

text \<open>
  The candidate set, or \<open>None\<close> when gathering it ends in an exception. For the
  source \<open>all\<close>, and when no source is given, the loader is asked for the cards of
  every service in turn; a loader that fails is an exception, and otherwise the
  candidates are the candidates among the cards of the services, each marked with its
  service. For every other source, \<open>current\<close> among them, the candidates are the
  candidates among \<open>currentCards\<close>, and it is an exception when there is no such array.
\<close>

definition candidates_of ::
  "string option \<Rightarrow> card list option \<Rightarrow> (string \<Rightarrow> error + card list) \<Rightarrow> card list option" where
  "candidates_of source currentCards loader =
     (if source = Some ''all'' \<or> source = None \<or> source = Some '''' then
        if list_ex (\<lambda>s. isl (loader s)) serviceNames then None
        else Some (concat (map
               (\<lambda>s. filter candidate
                      (map (\<lambda>c. c\<lparr>sourceService := Some s\<rparr>)
                         (case loader s of Inl e \<Rightarrow> [] | Inr cs \<Rightarrow> cs)))
               serviceNames))
      else
        (case currentCards of
           None \<Rightarrow> None
         | Some cs \<Rightarrow> Some (filter candidate cs)))"

text \<open>A card with an image, for the example of \<open>getRandomCard\<close>.\<close>

definition pic :: card where
  "pic = blank_card\<lparr>name := Some ''Pic'', image_url := Some ''https://example.org/a.png''\<rparr>"

section \<open>The Chub API service\<close>

definition CHUB_API_BASE :: string where
  "CHUB_API_BASE = ''https://api.chub.ai''"

definition CHUB_TOKEN_KEY :: string where
  "CHUB_TOKEN_KEY = ''botBrowser_chubApiToken''"

subsection \<open>The token in local storage\<close>

text \<open>
  \<^verbatim>\<open>localStorage\<close> is a map from keys to strings; \<^verbatim>\<open>getItem\<close> gives \<^verbatim>\<open>null\<close>
  (\<open>None\<close>) for a key that is not there. The four functions take the storage and, when
  they write, return the new one. The argument of \<open>saveChubToken\<close> is \<open>None\<close> for
  \<^verbatim>\<open>null\<close> or \<^verbatim>\<open>undefined\<close>. The calls of \<^verbatim>\<open>console.log\<close> are left out.
\<close>

definition saveChubToken :: "string option \<Rightarrow> (string \<rightharpoonup> string) \<Rightarrow> (string \<rightharpoonup> string)" where
  "saveChubToken token localStorage =
     (if truthy token \<and> trim (the token) \<noteq> [] then
        localStorage(CHUB_TOKEN_KEY \<mapsto> trim (the token))
      else localStorage(CHUB_TOKEN_KEY := None))"

definition getChubToken :: "(string \<rightharpoonup> string) \<Rightarrow> string option" where
  "getChubToken localStorage = localStorage CHUB_TOKEN_KEY"

definition hasChubToken :: "(string \<rightharpoonup> string) \<Rightarrow> bool" where
  "hasChubToken localStorage =
     (let token = getChubToken localStorage
      in token \<noteq> None \<and> length (trim (the token)) > 0)"

definition clearChubToken :: "(string \<rightharpoonup> string) \<Rightarrow> (string \<rightharpoonup> string)" where
  "clearChubToken localStorage = localStorage(CHUB_TOKEN_KEY := None)"

subsection \<open>The request\<close>

text \<open>
  \<open>SORT_MAP\<close>, and the lookup \<^verbatim>\<open>SORT_MAP[sort] || SORT_MAP['default']\<close> among the
  properties that the object itself has (the names that every object inherits, such as
  \<^verbatim>\<open>constructor\<close>, are not sort tokens and are outside the model).
\<close>

definition SORT_MAP :: "(string \<times> string) list" where
  "SORT_MAP =
     [(''recent'', ''created_at''),
      (''trending'', ''trending''),
      (''rating'', ''rating''),
      (''stars'', ''star_count''),
      (''downloads'', ''download_count''),
      (''favorites'', ''n_favorites''),
      (''newcomer'', ''newcomer''),
      (''activity'', ''last_activity_at''),
      (''default'', ''default'')]"

definition apiSort :: "string \<Rightarrow> string" where
  "apiSort sort_token =
     or_str (map_of SORT_MAP sort_token) (the (map_of SORT_MAP ''default''))"

text \<open>
  \<^verbatim>\<open>Number.prototype.toString\<close> on a natural number: its decimal digits, which is
  what the host gives for every number below \<open>10\<^sup>2\<^sup>1\<close>; the numbers printed here
  are the size of a page and the status of a response.
\<close>

definition digit_char :: "nat \<Rightarrow> char" where
  "digit_char d = ''0123456789'' ! d"

fun nat_toString :: "nat \<Rightarrow> string" where
  "nat_toString n =
     (if n < 10 then [digit_char n] else nat_toString (n div 10) @ [digit_char (n mod 10)])"

declare nat_toString.simps [simp del]

text \<open>
  \<^verbatim>\<open>URLSearchParams\<close>: the list of the pairs appended, and \<^verbatim>\<open>toString\<close>, the
  \<^verbatim>\<open>application/x-www-form-urlencoded\<close> serialisation: letters, digits and
  \<^verbatim>\<open>*-._\<close> stay, a space becomes \<^verbatim>\<open>+\<close>, every other code unit becomes the
  percent-encoded bytes of its UTF-8 encoding.
\<close>

definition hex_digit :: "nat \<Rightarrow> char" where
  "hex_digit d = ''0123456789ABCDEF'' ! d"

definition percent_byte :: "nat \<Rightarrow> string" where
  "percent_byte b = [CHR ''%'', hex_digit (b div 16), hex_digit (b mod 16)]"

definition utf8_bytes :: "char \<Rightarrow> nat list" where
  "utf8_bytes c =
     (let n = (of_char c :: nat)
      in if n < 128 then [n] else [192 + n div 64, 128 + n mod 64])"

definition form_encode_char :: "char \<Rightarrow> string" where
  "form_encode_char c =
     (let n = (of_char c :: nat)
      in if (48 \<le> n \<and> n \<le> 57) \<or> (65 \<le> n \<and> n \<le> 90) \<or> (97 \<le> n \<and> n \<le> 122) \<or>
            n \<in> set [42, 45, 46, 95]
         then [c]
         else if n = 32 then ''+''
         else concat (map percent_byte (utf8_bytes c)))"

definition form_encode :: "string \<Rightarrow> string" where
  "form_encode s = concat (map form_encode_char s)"

fun join_amp :: "string list \<Rightarrow> string" where
  "join_amp [] = ''''"
| "join_amp [p] = p"
| "join_amp (p # q # ps) = p @ ''&'' @ join_amp (q # ps)"

definition params_toString :: "(string \<times> string) list \<Rightarrow> string" where
  "params_toString params =
     join_amp (map (\<lambda>(k, v). form_encode k @ ''='' @ form_encode v) params)"

text \<open>
  The options of \<open>fetchChubCards\<close>; a field is \<open>None\<close> when the caller leaves it out,
  and the destructuring puts the default in its place.
\<close>

record options =
  opt_sort :: "string option"
  opt_first :: "nat option"
  opt_search :: "string option"
  opt_cursor :: "string option"
  opt_nsfw :: "bool option"

definition request_params :: "options \<Rightarrow> (string \<times> string) list" where
  "request_params opts =
     (let sort_token = (case opt_sort opts of None \<Rightarrow> ''default'' | Some s \<Rightarrow> s);
          first_n = (case opt_first opts of None \<Rightarrow> 200 | Some n \<Rightarrow> n);
          search_text = (case opt_search opts of None \<Rightarrow> '''' | Some s \<Rightarrow> s);
          nsfw_flag = (case opt_nsfw opts of None \<Rightarrow> True | Some b \<Rightarrow> b)
      in [(''first'', nat_toString first_n)] @
         [(''sort'', apiSort sort_token)] @
         (if search_text \<noteq> [] then [(''search'', search_text)] else []) @
         (if truthy (opt_cursor opts) then [(''cursor'', the (opt_cursor opts))] else []) @
         (if \<not> nsfw_flag then [(''venus'', ''false'')] else []))"

definition request_url :: "options \<Rightarrow> string" where
  "request_url opts = CHUB_API_BASE @ ''/search?'' @ params_toString (request_params opts)"

definition request_headers :: "(string \<rightharpoonup> string) \<Rightarrow> (string \<times> string) list" where
  "request_headers localStorage =
     (let token = getChubToken localStorage
      in [(''Accept'', ''application/json'')] @
         (if truthy token then
            [(''CH-API-KEY'', the token), (''Authorization'', ''Bearer '' @ the token)]
          else []))"

subsection \<open>The response\<close>

text \<open>
  The values that \<^verbatim>\<open>response.json()\<close> can give: \<^verbatim>\<open>null\<close>, booleans, numbers,
  strings, arrays and objects. The type \<open>'n\<close> of the numbers is left open, and what the
  service does with a number is a parameter \<open>N\<close> of the host: whether it is falsy (zero),
  its \<^verbatim>\<open>toString\<close>, and the number of a length. A property that an object may lack is
  an option, \<open>None\<close> for \<^verbatim>\<open>undefined\<close>.
\<close>

datatype 'n json =
    JNull
  | JBool bool
  | JNum 'n
  | JStr string
  | JArr "'n json list"
  | JObj "(string \<times> 'n json) list"

record 'n number_ops =
  num_falsy :: "'n \<Rightarrow> bool"
  num_toString :: "'n \<Rightarrow> string"
  num_of_nat :: "nat \<Rightarrow> 'n"

text \<open>
  Truthiness, and \<^verbatim>\<open>a || d\<close>. Reading a property of a value that is not
  \<^verbatim>\<open>null\<close>: an object gives the value it has under the name (the last one, when the
  JSON text repeats the name); strings, numbers, booleans and arrays have none of the
  properties that the service reads.
\<close>

fun truthy_value :: "'n number_ops \<Rightarrow> 'n json \<Rightarrow> bool" where
  "truthy_value N JNull = False"
| "truthy_value N (JBool b) = b"
| "truthy_value N (JNum n) = (\<not> num_falsy N n)"
| "truthy_value N (JStr s) = (s \<noteq> [])"
| "truthy_value N (JArr xs) = True"
| "truthy_value N (JObj kvs) = True"

definition truthy_prop :: "'n number_ops \<Rightarrow> 'n json option \<Rightarrow> bool" where
  "truthy_prop N a = (case a of None \<Rightarrow> False | Some v \<Rightarrow> truthy_value N v)"

definition or_value :: "'n number_ops \<Rightarrow> 'n json option \<Rightarrow> 'n json \<Rightarrow> 'n json" where
  "or_value N a d = (case a of None \<Rightarrow> d | Some v \<Rightarrow> if truthy_value N v then v else d)"

fun field :: "'n json \<Rightarrow> string \<Rightarrow> 'n json option" where
  "field (JObj kvs) k = map_of (rev kvs) k"
| "field JNull k = None"
| "field (JBool b) k = None"
| "field (JNum n) k = None"
| "field (JStr s) k = None"
| "field (JArr xs) k = None"

text \<open>
  A value inside a template literal is turned into a string. An array is joined with
  commas, \<^verbatim>\<open>null\<close> elements giving the empty string; an object gives
  \<^verbatim>\<open>[object Object]\<close>, unless it has a property \<^verbatim>\<open>toString\<close> of its own, which
  is no function in parsed JSON: then the conversion throws a \<open>TypeError\<close>.
\<close>

fun printable :: "'n json \<Rightarrow> bool" where
  "printable (JArr xs) = list_all printable xs"
| "printable (JObj kvs) = (''toString'' \<notin> set (map fst kvs))"
| "printable JNull = True"
| "printable (JBool b) = True"
| "printable (JNum n) = True"
| "printable (JStr s) = True"

fun join_comma :: "string list \<Rightarrow> string" where
  "join_comma [] = ''''"
| "join_comma [p] = p"
| "join_comma (p # q # ps) = p @ '','' @ join_comma (q # ps)"

fun js_toString :: "'n number_ops \<Rightarrow> 'n json \<Rightarrow> string" where
  "js_toString N JNull = ''null''"
| "js_toString N (JBool b) = (if b then ''true'' else ''false'')"
| "js_toString N (JNum n) = num_toString N n"
| "js_toString N (JStr s) = s"
| "js_toString N (JArr xs) =
     join_comma (map (\<lambda>x. case x of JNull \<Rightarrow> '''' | _ \<Rightarrow> js_toString N x) xs)"
| "js_toString N (JObj kvs) = ''[object Object]''"

definition template_text :: "'n number_ops \<Rightarrow> 'n json option \<Rightarrow> error + string" where
  "template_text N a =
     (case a of
        None \<Rightarrow> Inr ''undefined''
      | Some v \<Rightarrow> if printable v then Inr (js_toString N v) else Inl TypeError)"

subsection \<open>transformChubCard\<close>

text \<open>
  The card that \<open>transformChubCard\<close> builds. A field that takes a value of the node as
  it is holds a value; the others are strings.
\<close>

record 'n chub_meta =
  starCount :: "'n json"
  rating :: "'n json"
  ratingCount :: "'n json"
  createdAt :: "'n json"
  lastActivityAt :: "'n json"
  nChats :: "'n json"
  nMessages :: "'n json"
  nFavorites :: "'n json"
  forksCount :: "'n json"
  nTokens :: "'n json"

record 'n chub_card =
  card_id :: string
  chub_service :: string
  chub_name :: "'n json"
  chub_desc_preview :: "'n json"
  chub_desc_search :: "'n json"
  chub_tags :: "string list"
  chub_creator :: string
  chub_image_url :: string
  chub_avatar_url :: "'n json"
  chub_possibleNsfw :: "'n json"
  chubMeta :: "'n chub_meta"
  chunk :: "'n json"
  chunk_idx :: "'n json"
  chub_sourceService :: string

definition nsfwKeywords :: "string list" where
  "nsfwKeywords =
     [''nsfw'', ''nsfl'', ''adult'', ''explicit'', ''mature'', ''erotic'', ''sex'', ''porn'']"

text \<open>
  The expressions of \<open>transformChubCard\<close> that can throw, each with the strings it
  gives. \<^verbatim>\<open>(node.topics || []).map(t => t.toLowerCase())\<close> needs an array of strings
  when \<^verbatim>\<open>topics\<close> is truthy; the strings are the topics themselves.
\<close>

fun as_strings :: "'n json list \<Rightarrow> error + string list" where
  "as_strings [] = Inr []"
| "as_strings (JStr s # xs) =
     (case as_strings xs of Inl e \<Rightarrow> Inl e | Inr ss \<Rightarrow> Inr (s # ss))"
| "as_strings (x # xs) = Inl TypeError"

definition node_topics :: "'n number_ops \<Rightarrow> 'n json \<Rightarrow> error + string list" where
  "node_topics N node =
     (if \<not> truthy_prop N (field node ''topics'') then Inr []
      else case field node ''topics'' of
             Some (JArr ts) \<Rightarrow> as_strings ts
           | _ \<Rightarrow> Inl TypeError)"

text \<open>
  \<^verbatim>\<open>node.fullPath ? `https://chub.ai/characters/${node.fullPath}` : `chub-${node.id}`\<close>.
\<close>

definition node_card_id :: "'n number_ops \<Rightarrow> 'n json \<Rightarrow> error + string" where
  "node_card_id N node =
     (if truthy_prop N (field node ''fullPath'') then
        (case template_text N (field node ''fullPath'') of
           Inl e \<Rightarrow> Inl e
         | Inr path \<Rightarrow> Inr (''https://chub.ai/characters/'' @ path))
      else
        (case template_text N (field node ''id'') of
           Inl e \<Rightarrow> Inl e
         | Inr shown \<Rightarrow> Inr (''chub-'' @ shown)))"

text \<open>
  \<^verbatim>\<open>node.tagline || node.description?.substring(0, 150) || ''\<close>: the method
  \<^verbatim>\<open>substring\<close> is called on every description that is neither \<^verbatim>\<open>undefined\<close> nor
  \<^verbatim>\<open>null\<close>, and only strings have it.
\<close>

definition node_desc_preview :: "'n number_ops \<Rightarrow> 'n json \<Rightarrow> error + 'n json" where
  "node_desc_preview N node =
     (if truthy_prop N (field node ''tagline'') then Inr (the (field node ''tagline''))
      else case field node ''description'' of
             None \<Rightarrow> Inr (JStr '''')
           | Some JNull \<Rightarrow> Inr (JStr '''')
           | Some (JStr d) \<Rightarrow> Inr (JStr (take 150 d))
           | Some other \<Rightarrow> Inl TypeError)"

text \<open>\<^verbatim>\<open>node.fullPath ? node.fullPath.split('/')[0] : 'Unknown'\<close>: only strings have \<^verbatim>\<open>split\<close>.\<close>

definition node_creator :: "'n number_ops \<Rightarrow> 'n json \<Rightarrow> error + string" where
  "node_creator N node =
     (if truthy_prop N (field node ''fullPath'') then
        (case field node ''fullPath'' of
           Some (JStr p) \<Rightarrow> Inr (takeWhile (\<lambda>ch. ch \<noteq> CHR ''/'') p)
         | _ \<Rightarrow> Inl TypeError)
      else Inr ''Unknown'')"

text \<open>
  \<open>transformChubCard\<close>, in the order of the source: reading \<^verbatim>\<open>node.topics\<close> throws
  for a node that is \<^verbatim>\<open>null\<close>; then the topics, and the fields of the object from
  \<^verbatim>\<open>id\<close> on. The first exception ends the function.
\<close>

definition transformChubCard :: "'n number_ops \<Rightarrow> 'n json \<Rightarrow> error + 'n chub_card" where
  "transformChubCard N node =
     (if node = JNull then Inl TypeError
      else case node_topics N node of
        Inl e \<Rightarrow> Inl e
      | Inr topics \<Rightarrow>
          let topicsLower = map toLowerCase topics;
              nsfw_topic = list_ex (\<lambda>t. list_ex (\<lambda>kw. str_includes t kw) nsfwKeywords) topicsLower
          in
          (case node_card_id N node of
             Inl e \<Rightarrow> Inl e
           | Inr the_id \<Rightarrow>
               (case node_desc_preview N node of
                  Inl e \<Rightarrow> Inl e
                | Inr preview \<Rightarrow>
                    (case node_creator N node of
                       Inl e \<Rightarrow> Inl e
                     | Inr the_creator \<Rightarrow>
                         (case template_text N (field node ''fullPath'') of
                            Inl e \<Rightarrow> Inl e
                          | Inr path \<Rightarrow>
                              Inr \<lparr>card_id = the_id,
                                   chub_service = ''chub'',
                                   chub_name = or_value N (field node ''name'') (JStr ''Unknown''),
                                   chub_desc_preview = preview,
                                   chub_desc_search = or_value N (field node ''description'') (JStr ''''),
                                   chub_tags = topics,
                                   chub_creator = the_creator,
                                   chub_image_url = ''https://chub.ai/characters/'' @ path,
                                   chub_avatar_url =
                                     or_value N (field node ''avatar_url'')
                                       (or_value N (field node ''max_res_url'') (JStr '''')),
                                   chub_possibleNsfw =
                                     (if nsfw_topic then JBool True
                                      else or_value N (field node ''nsfw_image'') (JBool False)),
                                   chubMeta =
                                     \<lparr>starCount = or_value N (field node ''starCount'') (JNum (num_of_nat N 0)),
                                      rating = or_value N (field node ''rating'') (JNum (num_of_nat N 0)),
                                      ratingCount = or_value N (field node ''ratingCount'') (JNum (num_of_nat N 0)),
                                      createdAt = or_value N (field node ''createdAt'') JNull,
                                      lastActivityAt = or_value N (field node ''lastActivityAt'') JNull,
                                      nChats = or_value N (field node ''nChats'') (JNum (num_of_nat N 0)),
                                      nMessages = or_value N (field node ''nMessages'') (JNum (num_of_nat N 0)),
                                      nFavorites = or_value N (field node ''n_favorites'') (JNum (num_of_nat N 0)),
                                      forksCount = or_value N (field node ''forksCount'') (JNum (num_of_nat N 0)),
                                      nTokens = or_value N (field node ''nTokens'') (JNum (num_of_nat N 0))\<rparr>,
                                   chunk = JNull,
                                   chunk_idx = JNum (num_of_nat N 0),
                                   chub_sourceService = ''chub''\<rparr>)))))"

text \<open>
  The nodes that \<open>transformChubCard\<close> can transform, in words: the node is not
  \<^verbatim>\<open>null\<close>; its topics are falsy or an array of strings; its \<^verbatim>\<open>fullPath\<close> is falsy
  or a string; without a \<^verbatim>\<open>fullPath\<close>, its \<^verbatim>\<open>id\<close> can be turned into a string;
  and without a tagline, its description is missing, \<^verbatim>\<open>null\<close> or a string.
\<close>

definition transformable :: "'n number_ops \<Rightarrow> 'n json \<Rightarrow> bool" where
  "transformable N node \<longleftrightarrow>
     node \<noteq> JNull \<and>
     (truthy_prop N (field node ''topics'') \<longrightarrow>
        (\<exists>ts. field node ''topics'' = Some (JArr ts) \<and> (\<forall>t \<in> set ts. \<exists>s. t = JStr s))) \<and>
     (truthy_prop N (field node ''fullPath'') \<longrightarrow> (\<exists>p. field node ''fullPath'' = Some (JStr p))) \<and>
     (\<not> truthy_prop N (field node ''fullPath'') \<longrightarrow>
        (\<forall>v. field node ''id'' = Some v \<longrightarrow> printable v)) \<and>
     (\<not> truthy_prop N (field node ''tagline'') \<longrightarrow>
        field node ''description'' = None \<or> field node ''description'' = Some JNull \<or>
        (\<exists>d. field node ''description'' = Some (JStr d)))"

subsection \<open>fetchChubCards\<close>

text \<open>
  A response has its status and the result of \<^verbatim>\<open>response.json()\<close>: the parsed body,
  or a rejection when the body is not JSON. \<^verbatim>\<open>fetch\<close> is a parameter: from the URL
  and the headers to a response, or a rejection when the request fails.
\<close>

record 'n response =
  ok :: bool
  status :: nat
  statusText :: string
  json :: "error + 'n json"

record 'n fetch_result =
  res_cards :: "'n chub_card list"
  res_cursor :: "'n json"
  res_count :: "'n json"

text \<open>\<^verbatim>\<open>Array.prototype.map\<close> with a callback that may throw.\<close>

fun map_throwing :: "('a \<Rightarrow> error + 'b) \<Rightarrow> 'a list \<Rightarrow> error + 'b list" where
  "map_throwing f [] = Inr []"
| "map_throwing f (x # xs) =
     (case f x of
        Inl e \<Rightarrow> Inl e
      | Inr y \<Rightarrow> (case map_throwing f xs of Inl e \<Rightarrow> Inl e | Inr ys \<Rightarrow> Inr (y # ys)))"

text \<open>
  The body of the \<^verbatim>\<open>try\<close> block after the request is built: the value returned, or
  the exception thrown. Reading \<^verbatim>\<open>data.data\<close> throws when the parsed body is
  \<^verbatim>\<open>null\<close>.
\<close>

definition read_response :: "'n number_ops \<Rightarrow> error + 'n response \<Rightarrow> error + 'n fetch_result" where
  "read_response N fetched =
     (case fetched of
        Inl e \<Rightarrow> Inl e
      | Inr resp \<Rightarrow>
          if \<not> ok resp then
            Inl (Error (''Chub API error: '' @ nat_toString (status resp) @ '' '' @ statusText resp))
          else
            (case json resp of
               Inl e \<Rightarrow> Inl e
             | Inr parsed \<Rightarrow>
                 if parsed = JNull then Inl TypeError
                 else if \<not> truthy_prop N (field parsed ''data'') then
                   Inl (Error ''Invalid response format from Chub API'')
                 else
                   (case field (the (field parsed ''data'')) ''nodes'' of
                      Some (JArr node_list) \<Rightarrow>
                        (case map_throwing (transformChubCard N) node_list of
                           Inl e \<Rightarrow> Inl e
                         | Inr transformed \<Rightarrow>
                             Inr \<lparr>res_cards = transformed,
                                  res_cursor =
                                    or_value N (field (the (field parsed ''data'')) ''cursor'') JNull,
                                  res_count =
                                    or_value N (field (the (field parsed ''data'')) ''count'')
                                      (JNum (num_of_nat N (length transformed)))\<rparr>)
                    | _ \<Rightarrow> Inl (Error ''Invalid response format from Chub API''))))"

text \<open>
  \<open>fetchChubCards\<close>: the effects, and the value returned or the exception thrown. The
  options have the types that the function documents. The URL is logged before the
  request; the \<^verbatim>\<open>catch\<close> block logs the exception with \<^verbatim>\<open>console.error\<close> and
  throws the same exception again.
\<close>

definition fetchChubCards ::
  "'n number_ops \<Rightarrow> options \<Rightarrow> (string \<rightharpoonup> string) \<Rightarrow>
   (string \<Rightarrow> (string \<times> string) list \<Rightarrow> error + 'n response) \<Rightarrow>
   effect list \<times> (error + 'n fetch_result)" where
  "fetchChubCards N opts localStorage fetch =
     (let url = request_url opts;
          headers = request_headers localStorage;
          logged =
            (if truthy (getChubToken localStorage)
             then ConsoleLog (''[Bot Browser] Fetching from Chub API (authenticated): '' @ url)
             else ConsoleLog (''[Bot Browser] Fetching from Chub API (anonymous): '' @ url))
      in case read_response N (fetch url headers) of
           Inl e \<Rightarrow> ([logged, ConsoleError ''[Bot Browser] Error fetching from Chub API:''], Inl e)
         | Inr result \<Rightarrow> ([logged], Inr result))"

text \<open>
  The repository holds a second copy of the service, from before the token: it sends no
  headers (\<^verbatim>\<open>fetch(url)\<close>) and logs the URL without saying whether the request is
  authenticated. The rest of the function is the same.
\<close>

definition fetchChubCards_without_token ::
  "'n number_ops \<Rightarrow> options \<Rightarrow> (string \<Rightarrow> error + 'n response) \<Rightarrow>
   effect list \<times> (error + 'n fetch_result)" where
  "fetchChubCards_without_token N opts fetch =
     (let url = request_url opts;
          logged = ConsoleLog (''[Bot Browser] Fetching from Chub API: '' @ url)
      in case read_response N (fetch url) of
           Inl e \<Rightarrow> ([logged, ConsoleError ''[Bot Browser] Error fetching from Chub API:''], Inl e)
         | Inr result \<Rightarrow> ([logged], Inr result))"

text \<open>
  The specification of the failures, apart from the code. \<open>has_nodes parsed node_list\<close>:
  the parsed body has an object \<^verbatim>\<open>data.data\<close> whose \<^verbatim>\<open>nodes\<close> is the array
  \<open>node_list\<close>. \<open>stated_failure\<close> is the three failures that the claim lists: the
  request or the parsing of the body fails, the response is not ok, or the parsed body
  has no such array. \<open>fetch_fails\<close> adds the fourth one: a node of the array cannot be
  transformed.
\<close>

definition has_nodes :: "'n json \<Rightarrow> 'n json list \<Rightarrow> bool" where
  "has_nodes parsed node_list \<longleftrightarrow>
     (\<exists>kvs. field parsed ''data'' = Some (JObj kvs) \<and>
            field (JObj kvs) ''nodes'' = Some (JArr node_list))"

definition stated_failure :: "error + 'n response \<Rightarrow> bool" where
  "stated_failure fetched \<longleftrightarrow>
     (\<exists>e. fetched = Inl e) \<or>
     (\<exists>resp. fetched = Inr resp \<and>
        (\<not> ok resp \<or> (\<exists>e. json resp = Inl e) \<or>
         (\<exists>parsed. json resp = Inr parsed \<and> \<not> (\<exists>node_list. has_nodes parsed node_list))))"

definition fetch_fails :: "'n number_ops \<Rightarrow> error + 'n response \<Rightarrow> bool" where
  "fetch_fails N fetched \<longleftrightarrow>
     stated_failure fetched \<or>
     (\<exists>resp parsed node_list. fetched = Inr resp \<and> json resp = Inr parsed \<and>
        has_nodes parsed node_list \<and> \<not> list_all (transformable N) node_list)"

text \<open>
  Values for the examples: integers as the numbers, a response that is not ok, and three
  responses that are ok, with no node, with a node that is \<^verbatim>\<open>null\<close> and with a node that
  can be transformed.
\<close>

definition int_toString :: "int \<Rightarrow> string" where
  "int_toString i = (if i < 0 then ''-'' @ nat_toString (nat (- i)) else nat_toString (nat i))"

definition int_numbers :: "int number_ops" where
  "int_numbers = \<lparr>num_falsy = (\<lambda>i. i = 0), num_toString = int_toString, num_of_nat = int\<rparr>"

definition no_options :: options where
  "no_options =
     \<lparr>opt_sort = None, opt_first = None, opt_search = None, opt_cursor = None, opt_nsfw = None\<rparr>"

definition server_error :: "string \<Rightarrow> (string \<times> string) list \<Rightarrow> error + int response" where
  "server_error url headers =
     Inr \<lparr>ok = False, status = 500, statusText = ''Internal Server Error'',
          json = Inl (Rejected ''not JSON'')\<rparr>"

definition answer :: "int json list \<Rightarrow> string \<Rightarrow> (string \<times> string) list \<Rightarrow> error + int response" where
  "answer node_list url headers =
     Inr \<lparr>ok = True, status = 200, statusText = ''OK'',
          json = Inr (JObj [(''data'', JObj [(''nodes'', JArr node_list), (''cursor'', JStr ''''),
                                            (''count'', JNum 0)])])\<rparr>"

definition elf_node :: "int json" where
  "elf_node =
     JObj [(''fullPath'', JStr ''ann/elf''), (''name'', JStr ''Elf''), (''id'', JNum 7),
           (''topics'', JArr [JStr ''Fantasy'', JStr ''NSFW'']), (''createdAt'', JStr ''''),
           (''rating'', JNum 4)]"

chapter \<open>Properties\<close>

section \<open>deduplicateCards\<close>

text \<open>
  The key, case by case: a creator that is absent or the empty string gives
  \<open>unknown\<close>, as \<^verbatim>\<open>card.creator || 'unknown'\<close> does; an absent name gives the empty
  string.
\<close>

lemma card_key_creator_missing:
  "creator c = None \<or> creator c = Some '''' \<Longrightarrow>
   card_key c = trim (toLowerCase (or_str (name c) '''')) @ ''|unknown''"
  by (auto simp: card_key_def or_str_def trim_def is_space_def toLowerCase_def lower_char_def)

lemma card_key_creator_present:
  "creator c = Some s \<Longrightarrow> s \<noteq> [] \<Longrightarrow>
   card_key c = trim (toLowerCase (or_str (name c) '''')) @ ''|'' @ trim (toLowerCase s)"
  by (simp add: card_key_def or_str_def)

lemma card_key_name_missing:
  "name c = None \<Longrightarrow>
   card_key c = ''|'' @ trim (toLowerCase (or_str (creator c) ''unknown''))"
  by (simp add: card_key_def or_str_def trim_def toLowerCase_def)

text \<open>
  The loop appends to \<open>deduplicated\<close> the cards that \<open>first_by_key\<close> keeps, where the
  keys met so far are the domain of \<open>seen\<close>.
\<close>

lemma dedup_loop_first_by_key:
  "dedup_loop cs seen acc = acc @ first_by_key (dom seen) cs"
proof (induction cs arbitrary: seen acc)
  case Nil
  show ?case by simp
next
  case (Cons c cs)
  show ?case
  proof (cases "seen (card_key c)")
    case None
    then have fresh: "card_key c \<notin> dom seen" by (simp add: domIff)
    have "dedup_loop (c # cs) seen acc = dedup_loop cs (seen(card_key c \<mapsto> c)) (acc @ [c])"
      using None by simp
    also have "\<dots> = (acc @ [c]) @ first_by_key (dom (seen(card_key c \<mapsto> c))) cs"
      by (rule Cons.IH)
    also have "\<dots> = acc @ first_by_key (dom seen) (c # cs)"
      using fresh by simp
    finally show ?thesis .
  next
    case (Some firstCard)
    then have old: "card_key c \<in> dom seen" by (simp add: domIff)
    have "dedup_loop (c # cs) seen acc = dedup_loop cs seen acc"
      using Some by simp
    also have "\<dots> = acc @ first_by_key (dom seen) cs"
      by (rule Cons.IH)
    also have "\<dots> = acc @ first_by_key (dom seen) (c # cs)"
      using old by simp
    finally show ?thesis .
  qed
qed

lemma deduplicateCards_first_by_key:
  "deduplicateCards cards = first_by_key {} cards"
  by (simp add: deduplicateCards_def dedup_loop_first_by_key)

lemma first_by_key_subseq: "subseq (first_by_key S cs) cs"
  by (induction cs arbitrary: S) auto

lemma first_by_key_keys_fresh: "c \<in> set (first_by_key S cs) \<Longrightarrow> card_key c \<notin> S"
  by (induction cs arbitrary: S) (auto split: if_splits)

lemma first_by_key_distinct: "distinct (map card_key (first_by_key S cs))"
  by (induction cs arbitrary: S) (auto dest: first_by_key_keys_fresh)

lemma first_by_key_fixed:
  "distinct (map card_key cs) \<Longrightarrow> card_key ` set cs \<inter> S = {} \<Longrightarrow> first_by_key S cs = cs"
  by (induction cs arbitrary: S) auto

lemma first_by_key_positions:
  "first_by_key S cs =
     map (\<lambda>i. cs ! i)
       (filter (\<lambda>i. card_key (cs ! i) \<notin> S \<union> set (map card_key (take i cs))) [0..<length cs])"
proof (induction cs arbitrary: S)
  case Nil
  show ?case by simp
next
  case (Cons c cs)
  have upt: "[0..<length (c # cs)] = 0 # map Suc [0..<length cs]"
    by (simp add: upt_conv_Cons map_Suc_upt del: upt_Suc)
  show ?case
    unfolding upt
    by (auto simp add: Cons.IH filter_map comp_def
        intro!: filter_cong arg_cong [where f = "map ((!) cs)"])
qed

lemma deduplicateCards_positions:
  "deduplicateCards cards =
     map (\<lambda>i. cards ! i)
       (filter (\<lambda>i. card_key (cards ! i) \<notin> set (map card_key (take i cards)))
          [0..<length cards])"
  by (simp add: deduplicateCards_first_by_key first_by_key_positions)

text \<open>The key that the loop builds is the normalised key of the specification.\<close>

lemma card_key_normalized: "card_key c = normalized_key c"
proof -
  have n: "or_str (name c) '''' = (case name c of None \<Rightarrow> '''' | Some n \<Rightarrow> n)"
    by (cases "name c") (auto simp: or_str_def)
  have a: "or_str (creator c) ''unknown'' =
      (case creator c of None \<Rightarrow> ''unknown'' | Some a \<Rightarrow> if a = '''' then ''unknown'' else a)"
    by (cases "creator c") (auto simp: or_str_def)
  show ?thesis
    unfolding card_key_def normalized_key_def Let_def n a by (rule refl)
qed

text \<open>
  C1 as stated fails. The first card has the empty string as its creator and the second
  one the creator \<open>Unknown\<close>; both have the name \<open>Ann\<close>. The creator of the first card
  is not missing, so its stated key is \<open>ann|\<close>, the stated key \<open>ann|unknown\<close> of the
  second card occurs at no earlier position, and the claim keeps both cards. The code
  takes \<open>unknown\<close> for the empty creator (\<^verbatim>\<open>card.creator || 'unknown'\<close>) and drops
  the second card.
\<close>

theorem deduplicateCards_empty_creator_is_unknown:
  "first_occurrences stated_key
     [blank_card\<lparr>name := Some ''Ann'', creator := Some ''''\<rparr>,
      blank_card\<lparr>name := Some ''Ann'', creator := Some ''Unknown''\<rparr>] =
     [blank_card\<lparr>name := Some ''Ann'', creator := Some ''''\<rparr>,
      blank_card\<lparr>name := Some ''Ann'', creator := Some ''Unknown''\<rparr>] \<and>
   deduplicateCards
     [blank_card\<lparr>name := Some ''Ann'', creator := Some ''''\<rparr>,
      blank_card\<lparr>name := Some ''Ann'', creator := Some ''Unknown''\<rparr>] =
     [blank_card\<lparr>name := Some ''Ann'', creator := Some ''''\<rparr>]"
  by code_simp

text \<open>
  C1, amended. The output of \<open>deduplicateCards\<close> is exactly the cards of the input
  whose key occurs at no earlier position of the input, where the key is the name in
  lower case and trimmed (the empty string when the name is missing), a bar, and the
  creator in lower case and trimmed (\<open>unknown\<close> when the creator is missing or the
  empty string): the first card of every key is kept, in place, and every later card
  with the same key is dropped.
\<close>

theorem deduplicateCards_keeps_first_occurrence:
  "deduplicateCards cards = first_occurrences normalized_key cards"
proof -
  have "card_key = normalized_key"
    by (rule ext) (rule card_key_normalized)
  then show ?thesis
    by (simp add: deduplicateCards_positions first_occurrences_def)
qed

text \<open>
  An example: the third card has the key \<open>bob|x\<close> of the first one; the fourth, whose
  creator is \<open>Unknown\<close>, and the fifth, whose creator is empty, have the key
  \<open>al|unknown\<close> of the second one, which has no creator; the last one, \<open>al|y\<close>, is new.
\<close>

theorem deduplicateCards_keeps_first_occurrence_witness:
  "first_occurrences normalized_key
     [bob_x, al, blank_card\<lparr>name := Some '' BOB'', creator := Some ''X ''\<rparr>,
      blank_card\<lparr>name := Some ''al'', creator := Some ''Unknown''\<rparr>,
      blank_card\<lparr>name := Some ''AL '', creator := Some ''''\<rparr>,
      blank_card\<lparr>name := Some ''Al'', creator := Some ''y''\<rparr>] =
     [bob_x, al, blank_card\<lparr>name := Some ''Al'', creator := Some ''y''\<rparr>] \<and>
   deduplicateCards
     [bob_x, al, blank_card\<lparr>name := Some '' BOB'', creator := Some ''X ''\<rparr>,
      blank_card\<lparr>name := Some ''al'', creator := Some ''Unknown''\<rparr>,
      blank_card\<lparr>name := Some ''AL '', creator := Some ''''\<rparr>,
      blank_card\<lparr>name := Some ''Al'', creator := Some ''y''\<rparr>] =
     [bob_x, al, blank_card\<lparr>name := Some ''Al'', creator := Some ''y''\<rparr>]"
proof -
  have "first_occurrences normalized_key
     [bob_x, al, blank_card\<lparr>name := Some '' BOB'', creator := Some ''X ''\<rparr>,
      blank_card\<lparr>name := Some ''al'', creator := Some ''Unknown''\<rparr>,
      blank_card\<lparr>name := Some ''AL '', creator := Some ''''\<rparr>,
      blank_card\<lparr>name := Some ''Al'', creator := Some ''y''\<rparr>] =
     [bob_x, al, blank_card\<lparr>name := Some ''Al'', creator := Some ''y''\<rparr>]"
    by code_simp
  then show ?thesis
    using deduplicateCards_keeps_first_occurrence
      [of "[bob_x, al, blank_card\<lparr>name := Some '' BOB'', creator := Some ''X ''\<rparr>,
      blank_card\<lparr>name := Some ''al'', creator := Some ''Unknown''\<rparr>,
      blank_card\<lparr>name := Some ''AL '', creator := Some ''''\<rparr>,
      blank_card\<lparr>name := Some ''Al'', creator := Some ''y''\<rparr>]"]
    by simp
qed

text \<open>
  C9. The output of \<open>deduplicateCards\<close> is a subsequence of the input, its keys are
  pairwise distinct, and \<open>deduplicateCards\<close> leaves its own output as it is.
\<close>

theorem deduplicateCards_idempotent_order_preserving:
  "subseq (deduplicateCards cards) cards \<and>
   distinct (map card_key (deduplicateCards cards)) \<and>
   deduplicateCards (deduplicateCards cards) = deduplicateCards cards"
  by (simp add: deduplicateCards_first_by_key first_by_key_subseq first_by_key_distinct
      first_by_key_fixed)

section \<open>sortCards\<close>

subsection \<open>The comparator\<close>

lemma consistent_swap:
  "consistent_comparator cmp \<Longrightarrow> (cmp a b < 0) = (0 < cmp b a)"
  unfolding consistent_comparator_def by (elim conjE allE)

lemma consistent_total:
  assumes "consistent_comparator cmp" "0 < cmp a b"
  shows "cmp b a \<le> 0"
  using consistent_swap [OF assms(1), of b a] assms(2) by simp

lemma consistent_trans:
  assumes "consistent_comparator cmp" "cmp a b \<le> 0" "cmp b c \<le> 0"
  shows "cmp a c \<le> 0"
proof -
  have "cmp a b \<le> 0 \<and> cmp b c \<le> 0 \<longrightarrow> cmp a c \<le> 0"
    using assms(1) unfolding consistent_comparator_def by (elim conjE allE)
  with assms(2,3) show ?thesis by simp
qed

lemma consistent_sym:
  assumes "consistent_comparator cmp" "cmp a b = 0"
  shows "cmp b a = 0"
  using consistent_swap [OF assms(1), of a b] consistent_swap [OF assms(1), of b a] assms(2)
  by simp

lemma consistent_equal:
  assumes "consistent_comparator cmp" "cmp x c = 0" "cmp y c = 0"
  shows "cmp x y \<le> 0"
proof -
  have "cmp c y = 0" using assms(1,3) by (rule consistent_sym)
  then show ?thesis using consistent_trans [OF assms(1), of x c y] assms(2) by simp
qed

lemma mset_insert_sorted: "mset (insert_sorted cmp x ys) = add_mset x (mset ys)"
  by (induction ys) auto

lemma mset_array_sort: "mset (array_sort cmp xs) = mset xs"
  by (induction xs) (auto simp: array_sort_def mset_insert_sorted)

lemma set_insert_sorted: "set (insert_sorted cmp x ys) = insert x (set ys)"
  by (induction ys) auto

lemma sorted_insert_sorted:
  assumes "consistent_comparator cmp"
  shows "sorted_wrt (\<lambda>a b. cmp a b \<le> 0) ys \<Longrightarrow>
         sorted_wrt (\<lambda>a b. cmp a b \<le> 0) (insert_sorted cmp x ys)"
proof (induction ys)
  case Nil
  show ?case by simp
next
  case (Cons y ys)
  show ?case
  proof (cases "cmp x y \<le> 0")
    case True
    have "cmp x z \<le> 0" if "z \<in> set ys" for z
      using consistent_trans [OF assms True, of z] Cons.prems that by auto
    with True Cons.prems show ?thesis by auto
  next
    case False
    then have "cmp y x \<le> 0" using consistent_total [OF assms, of x y] by simp
    with False Cons show ?thesis by (auto simp: set_insert_sorted)
  qed
qed

lemma sorted_array_sort:
  "consistent_comparator cmp \<Longrightarrow> sorted_wrt (\<lambda>a b. cmp a b \<le> 0) (array_sort cmp xs)"
  by (induction xs) (auto simp: array_sort_def sorted_insert_sorted)

lemma filter_insert_sorted:
  assumes "consistent_comparator cmp"
  shows "filter (\<lambda>y. cmp y c = 0) (insert_sorted cmp x ys) =
         (if cmp x c = 0 then x # filter (\<lambda>y. cmp y c = 0) ys else filter (\<lambda>y. cmp y c = 0) ys)"
proof (induction ys)
  case Nil
  show ?case by simp
next
  case (Cons y ys)
  show ?case
  proof (cases "cmp x y \<le> 0")
    case True
    then show ?thesis by simp
  next
    case False
    then have "\<not> (cmp x c = 0 \<and> cmp y c = 0)"
      using consistent_equal [OF assms, of x c y] by auto
    with False Cons.IH show ?thesis by auto
  qed
qed

lemma filter_array_sort:
  "consistent_comparator cmp \<Longrightarrow>
   filter (\<lambda>y. cmp y c = 0) (array_sort cmp xs) = filter (\<lambda>y. cmp y c = 0) xs"
  by (induction xs) (auto simp: array_sort_def filter_insert_sorted)

lemma array_sort_stable:
  "consistent_comparator cmp \<Longrightarrow> stable_sort_of cmp xs (array_sort cmp xs)"
  by (simp add: stable_sort_of_def mset_array_sort sorted_array_sort filter_array_sort)

lemma consistent_on_field:
  "consistent_comparator cmp \<Longrightarrow> consistent_comparator (\<lambda>a b. cmp (f a) (f b))"
  unfolding consistent_comparator_def by blast

lemma consistent_on_field_swapped:
  "consistent_comparator cmp \<Longrightarrow> consistent_comparator (\<lambda>a b. cmp (f b) (f a))"
  unfolding consistent_comparator_def by blast

lemma sort_copy:
  "cards < length h \<Longrightarrow>
   (case spread h cards of (h1, c) \<Rightarrow> sort_in_place cmp h1 c) =
     (h @ [array_sort cmp (h ! cards)], length h)"
  by (simp add: spread_def sort_in_place_def nth_append)

lemma codeunit_compare_swap: "(codeunit_compare a b < 0) = (0 < codeunit_compare b a)"
  by (induction a b rule: codeunit_compare.induct) auto

lemma codeunit_compare_trans:
  "codeunit_compare a b \<le> 0 \<Longrightarrow> codeunit_compare b c \<le> 0 \<Longrightarrow> codeunit_compare a c \<le> 0"
proof (induction a b arbitrary: c rule: codeunit_compare.induct)
  case 1
  then show ?case by simp
next
  case (2 y ys)
  show ?case by (cases c) simp_all
next
  case (3 x xs)
  then show ?case by simp
next
  case (4 x xs y ys)
  let ?X = "of_char x :: nat" and ?Y = "of_char y :: nat"
  obtain z zs where c: "c = z # zs"
    using "4.prems"(2) by (cases c) simp_all
  let ?Z = "of_char z :: nat"
  have p1: "?X < ?Y \<or> (?X = ?Y \<and> codeunit_compare xs ys \<le> 0)"
    using "4.prems"(1) by (simp split: if_splits)
  have p2: "?Y < ?Z \<or> (?Y = ?Z \<and> codeunit_compare ys zs \<le> 0)"
    using "4.prems"(2) unfolding c by (simp split: if_splits)
  show ?case
  proof (cases "?X = ?Y \<and> ?Y = ?Z")
    case True
    then have "codeunit_compare xs zs \<le> 0"
      using "4.IH" [of zs] p1 p2 by simp
    with True show ?thesis unfolding c by simp
  next
    case False
    then have "?X < ?Z" using p1 p2 by auto
    then show ?thesis unfolding c by simp
  qed
qed

lemma codeunit_compare_consistent: "consistent_comparator codeunit_compare"
  unfolding consistent_comparator_def
proof (intro conjI allI impI)
  fix a b show "(codeunit_compare a b < 0) = (0 < codeunit_compare b a)"
    by (rule codeunit_compare_swap)
next
  fix a b c assume "codeunit_compare a b \<le> 0 \<and> codeunit_compare b c \<le> 0"
  then show "codeunit_compare a c \<le> 0"
    using codeunit_compare_trans [of a b c] by simp
qed

subsection \<open>The three claims about sortCards\<close>

text \<open>
  C3. \<open>sortCards\<close> does not change the array it is given, whatever the token: no
  array of the store before the call is changed by it (so the array \<open>cards\<close> refers to
  has the same elements in the same order afterwards), and the reference returned is a
  new one, that of the copy.
\<close>

theorem sortCards_non_mutating:
  assumes "cards < length h"
  shows "take (length h) (fst (sortCards localeCompare h cards sortBy)) = h \<and>
         fst (sortCards localeCompare h cards sortBy) ! cards = h ! cards \<and>
         snd (sortCards localeCompare h cards sortBy) \<noteq> cards"
  using assms by (simp add: sortCards_def spread_def sort_in_place_def nth_append)

theorem sortCards_non_mutating_witness:
  "(0::nat) < length [[bob_x, al, bob_y]] \<and>
   fst (sortCards codeunit_compare [[bob_x, al, bob_y]] 0 ''name_asc'') ! 0 = [bob_x, al, bob_y] \<and>
   deref (sortCards codeunit_compare [[bob_x, al, bob_y]] 0 ''name_asc'') = [al, bob_x, bob_y]"
proof -
  have "deref (sortCards codeunit_compare [[bob_x, al, bob_y]] 0 ''name_asc'') = [al, bob_x, bob_y]"
    by (simp add: sortCards_def spread_def sort_in_place_def deref_def array_sort_def
        or_str_def bob_x_def al_def bob_y_def blank_card_def)
  then show ?thesis
    using sortCards_non_mutating [of 0 "[[bob_x, al, bob_y]]" codeunit_compare "''name_asc''"]
    by simp
qed

text \<open>
  C4. For each of the tokens \<open>name_asc\<close>, \<open>name_desc\<close>, \<open>creator_asc\<close> and
  \<open>creator_desc\<close>, and a \<^verbatim>\<open>localeCompare\<close> that is a consistent comparator, the array
  returned is the stable sort of the input by the comparison of the named field (the
  empty string for a missing name or creator), with the arguments swapped for the
  descending tokens: a permutation of the input, ordered by the field, in which cards
  that compare equal keep the order of the input.
\<close>

theorem sortCards_local_sorts_stable:
  assumes "consistent_comparator localeCompare" and "cards < length h"
  shows "stable_sort_of (\<lambda>a b. localeCompare (or_str (name a) '''') (or_str (name b) ''''))
           (h ! cards) (deref (sortCards localeCompare h cards ''name_asc'')) \<and>
         stable_sort_of (\<lambda>a b. localeCompare (or_str (name b) '''') (or_str (name a) ''''))
           (h ! cards) (deref (sortCards localeCompare h cards ''name_desc'')) \<and>
         stable_sort_of (\<lambda>a b. localeCompare (or_str (creator a) '''') (or_str (creator b) ''''))
           (h ! cards) (deref (sortCards localeCompare h cards ''creator_asc'')) \<and>
         stable_sort_of (\<lambda>a b. localeCompare (or_str (creator b) '''') (or_str (creator a) ''''))
           (h ! cards) (deref (sortCards localeCompare h cards ''creator_desc''))"
proof -
  have ref: "deref (case spread h cards of (h1, c) \<Rightarrow> sort_in_place cmp h1 c) =
      array_sort cmp (h ! cards)" for cmp :: "card \<Rightarrow> card \<Rightarrow> int"
    using assms(2) by (simp add: sort_copy deref_def)
  have asc: "stable_sort_of (\<lambda>a b. localeCompare (f a) (f b)) xs
      (array_sort (\<lambda>a b. localeCompare (f a) (f b)) xs)" for f :: "card \<Rightarrow> string" and xs
    by (rule array_sort_stable) (rule consistent_on_field [OF assms(1)])
  have desc: "stable_sort_of (\<lambda>a b. localeCompare (f b) (f a)) xs
      (array_sort (\<lambda>a b. localeCompare (f b) (f a)) xs)" for f :: "card \<Rightarrow> string" and xs
    by (rule array_sort_stable) (rule consistent_on_field_swapped [OF assms(1)])
  show ?thesis
    using ref asc [of "\<lambda>c. or_str (name c) ''''"] desc [of "\<lambda>c. or_str (name c) ''''"]
      asc [of "\<lambda>c. or_str (creator c) ''''"] desc [of "\<lambda>c. or_str (creator c) ''''"]
    by (simp add: sortCards_def)
qed

theorem sortCards_local_sorts_stable_witness:
  "consistent_comparator codeunit_compare \<and> (0::nat) < length [[bob_x, al, bob_y]] \<and>
   stable_sort_of (\<lambda>a b. codeunit_compare (or_str (name b) '''') (or_str (name a) ''''))
     [bob_x, al, bob_y] [bob_x, bob_y, al] \<and>
   deref (sortCards codeunit_compare [[bob_x, al, bob_y]] 0 ''name_desc'') = [bob_x, bob_y, al]"
proof -
  have "deref (sortCards codeunit_compare [[bob_x, al, bob_y]] 0 ''name_desc'') = [bob_x, bob_y, al]"
    by (simp add: sortCards_def spread_def sort_in_place_def deref_def array_sort_def
        or_str_def bob_x_def al_def bob_y_def blank_card_def)
  then show ?thesis
    using sortCards_local_sorts_stable [OF codeunit_compare_consistent,
        of 0 "[[bob_x, al, bob_y]]"]
    by (simp add: codeunit_compare_consistent)
qed

text \<open>
  C5. For every token that is not one of the four local ones (the tokens of the API
  \<open>recent\<close>, \<open>trending\<close>, \<open>rating\<close>, \<open>stars\<close>, \<open>downloads\<close>, \<open>favorites\<close>,
  \<open>newcomer\<close>, \<open>activity\<close> and \<open>default\<close>, the token \<open>relevance\<close>, and every
  token that is not recognised), the array returned has the elements of the input in
  the order of the input.
\<close>

theorem sortCards_api_tokens_unchanged:
  assumes "cards < length h"
    and "sortBy \<notin> set [''name_asc'', ''name_desc'', ''creator_asc'', ''creator_desc'']"
  shows "deref (sortCards localeCompare h cards sortBy) = h ! cards"
  using assms by (simp add: sortCards_def spread_def deref_def)

theorem sortCards_api_tokens_unchanged_witness:
  "(0::nat) < length [[bob_x, al, bob_y]] \<and>
   ''recent'' \<notin> set [''name_asc'', ''name_desc'', ''creator_asc'', ''creator_desc''] \<and>
   deref (sortCards codeunit_compare [[bob_x, al, bob_y]] 0 ''recent'') = [bob_x, al, bob_y] \<and>
   deref (sortCards codeunit_compare [[bob_x, al, bob_y]] 0 ''relevance'') = [bob_x, al, bob_y] \<and>
   deref (sortCards codeunit_compare [[bob_x, al, bob_y]] 0 ''by_date'') = [bob_x, al, bob_y]"
  using sortCards_api_tokens_unchanged [of 0 "[[bob_x, al, bob_y]]" "''recent''" codeunit_compare]
    sortCards_api_tokens_unchanged [of 0 "[[bob_x, al, bob_y]]" "''relevance''" codeunit_compare]
    sortCards_api_tokens_unchanged [of 0 "[[bob_x, al, bob_y]]" "''by_date''" codeunit_compare]
  by simp

section \<open>filterCards\<close>

text \<open>
  \<open>str_includes\<close> is the substring test: \<open>t\<close> occurs in \<open>s\<close> as a contiguous
  part.
\<close>

lemma startsWith_prefix: "startsWith s p = prefix p s"
  by (auto simp: startsWith_def prefix_def) (metis append_eq_conv_conj)

lemma str_includes_sublist: "str_includes s t = sublist t s"
  by (induction s) (simp_all add: startsWith_prefix sublist_Cons_right)

lemma filter_throwing_total:
  "(\<And>x. x \<in> set xs \<Longrightarrow> p x = Inr (q x)) \<Longrightarrow> filter_throwing p xs = Inr (filter q xs)"
  by (induction xs) simp_all

lemma or_chain_description:
  "or_str (or_opt (or_opt (desc_search c) (desc_preview c)) (description c)) '''' =
   card_description c"
  by (simp add: or_str_def or_opt_def card_description_def)

lemma fails_tag_filter_iff:
  "fails_tag_filter flt c \<longleftrightarrow>
   \<not> (filter_tags flt \<noteq> [] \<longrightarrow>
        (\<exists>card_tags. tags c = Some card_tags \<and> set (filter_tags flt) \<subseteq> set card_tags))"
  by (auto simp: fails_tag_filter_def list_all_iff split: option.splits)

lemma blocked_by_blocklist_iff:
  "blocked_by_blocklist st c \<longleftrightarrow>
   \<not> (\<forall>blocked \<in> set (normalized_blocklist st).
        (\<forall>card_tags. tags c = Some card_tags \<longrightarrow>
           blocked \<notin> set (map (\<lambda>tag. trim (toLowerCase tag)) card_tags)) \<and>
        \<not> sublist blocked (toLowerCase (card_description c)) \<and>
        \<not> sublist blocked (toLowerCase (or_str (name c) '''')))"
proof -
  define B where "B = (case tagBlocklist st of None \<Rightarrow> [] | Some b \<Rightarrow> b)"
  define N where "N = normalized_blocklist st"
  have N: "filter (\<lambda>term. length term > 0) (map (\<lambda>term. trim (toLowerCase term)) B) = N"
    by (simp add: N_def B_def normalized_blocklist_def)
  have empty: "N = []" if "B = []"
    using that N by simp
  have "blocked_by_blocklist st c =
      (if length B > 0 then
        if length N > 0 then
          (case tags c of None \<Rightarrow> False
           | Some card_tags \<Rightarrow> list_ex (\<lambda>blocked. blocked \<in> set (map (\<lambda>tag. trim (toLowerCase tag)) card_tags)) N)
          \<or> list_ex (\<lambda>blocked. str_includes (toLowerCase (card_description c)) blocked) N
          \<or> list_ex (\<lambda>blocked. str_includes (toLowerCase (or_str (name c) '''')) blocked) N
        else False
      else False)"
    unfolding blocked_by_blocklist_def B_def [symmetric] Let_def N or_chain_description
    by simp
  also have "\<dots> =
      ((case tags c of None \<Rightarrow> False
           | Some card_tags \<Rightarrow> list_ex (\<lambda>blocked. blocked \<in> set (map (\<lambda>tag. trim (toLowerCase tag)) card_tags)) N)
          \<or> list_ex (\<lambda>blocked. str_includes (toLowerCase (card_description c)) blocked) N
          \<or> list_ex (\<lambda>blocked. str_includes (toLowerCase (or_str (name c) '''')) blocked) N)"
    using empty by (cases "N = []") (auto split: option.splits)
  also have "\<dots> = (\<not> (\<forall>blocked \<in> set N.
        (\<forall>card_tags. tags c = Some card_tags \<longrightarrow>
           blocked \<notin> set (map (\<lambda>tag. trim (toLowerCase tag)) card_tags)) \<and>
        \<not> sublist blocked (toLowerCase (card_description c)) \<and>
        \<not> sublist blocked (toLowerCase (or_str (name c) ''''))))"
    by (auto simp: list_ex_iff str_includes_sublist split: option.splits)
  finally show ?thesis unfolding N_def .
qed

lemma card_passes_matches:
  assumes "extension_settings extensionName = Some st"
  shows "card_passes flt extensionName extension_settings c = Inr (matches_all_filters flt st c)"
  unfolding card_passes_def matches_all_filters_def assms
  using fails_tag_filter_iff [of flt c] blocked_by_blocklist_iff [of st c]
  by (auto simp: fails_creator_filter_def)

text \<open>
  C2. With no text search active (the search string is missing or empty, or there is no
  search index) and the settings \<open>st\<close> of the extension in place, \<open>filterCards\<close>
  returns the cards of the input that match all the filters, in the order of the input:
  every selected tag is among the tags of the card when tags are selected, the creator
  is the selected one when a creator is selected, the card is not flagged NSFW while
  \<open>hideNsfw\<close> is on, and no normalised blocklist term (lower case, trimmed, not empty)
  is a lower-case trimmed tag of the card or a part of its lower-case description
  (\<open>desc_search\<close>, else \<open>desc_preview\<close>, else \<open>description\<close>) or of its lower-case name.
\<close>

theorem filterCards_matches_all_filters:
  assumes "extension_settings extensionName = Some st"
    and "\<not> (truthy (filter_search flt) \<and> fuse \<noteq> None)"
  shows "filterCards cards flt fuse extensionName extension_settings =
           Inr (filter (matches_all_filters flt st) cards)"
proof -
  have "(case fuse of
           Some fuse_search \<Rightarrow>
             if truthy (filter_search flt) then fuse_search (the (filter_search flt)) else cards
         | None \<Rightarrow> cards) = cards"
    using assms(2) by (cases fuse) auto
  moreover have "card_passes flt extensionName extension_settings c =
      Inr (matches_all_filters flt st c)" for c
    using assms(1) by (rule card_passes_matches)
  ultimately show ?thesis
    by (simp add: filterCards_def filter_throwing_total)
qed

theorem filterCards_matches_all_filters_witness:
  "[''bot-browser'' \<mapsto> example_settings] ''bot-browser'' = Some example_settings \<and>
   \<not> (truthy (filter_search example_filters) \<and> (None :: (string \<Rightarrow> card list) option) \<noteq> None) \<and>
   filterCards example_cards example_filters None ''bot-browser''
     [''bot-browser'' \<mapsto> example_settings] = Inr [elf] \<and>
   filter (matches_all_filters example_filters example_settings) example_cards = [elf]"
proof -
  have run: "filterCards example_cards example_filters None ''bot-browser''
      [''bot-browser'' \<mapsto> example_settings] = Inr [elf]"
    by code_simp
  show ?thesis
    using run filterCards_matches_all_filters
      [of "[''bot-browser'' \<mapsto> example_settings]" "''bot-browser''" example_settings
        example_filters None example_cards]
    by simp
qed

section \<open>getRandomCard\<close>

text \<open>
  The callback of the three filters is the candidate test of the specification, and the
  three branches gather the candidate set of the specification or end in an exception
  where the specification has one.
\<close>

lemma startsWith_is_prefix: "startsWith s p = prefix p s"
  by (auto simp: startsWith_def prefix_def) (metis append_eq_conv_conj)

lemma has_image_candidate: "has_image c = candidate c"
proof (cases "avatar_url c")
  case None
  then show ?thesis
    by (cases "image_url c")
      (auto simp: has_image_def candidate_def card_image_def web_address_def or_opt_def
        startsWith_is_prefix trim_def)
next
  case (Some u)
  then show ?thesis
    by (cases "image_url c")
      (auto simp: has_image_def candidate_def card_image_def web_address_def or_opt_def
        startsWith_is_prefix trim_def)
qed

lemma load_all_fails:
  "list_ex (\<lambda>s. isl (loader s)) services \<Longrightarrow> isl (load_all loader services acc)"
proof (induction services arbitrary: acc)
  case Nil
  then show ?case by simp
next
  case (Cons s services)
  show ?case
  proof (cases "loader s")
    case (Inl e)
    then show ?thesis by simp
  next
    case (Inr serviceCards)
    then have "list_ex (\<lambda>s. isl (loader s)) services"
      using Cons.prems by simp
    then show ?thesis
      using Inr by (simp add: Let_def Cons.IH)
  qed
qed

lemma load_all_succeeds:
  "\<not> list_ex (\<lambda>s. isl (loader s)) services \<Longrightarrow>
   load_all loader services acc =
     Inr (acc @ concat (map
            (\<lambda>s. filter candidate
                   (map (\<lambda>c. c\<lparr>sourceService := Some s\<rparr>)
                      (case loader s of Inl e \<Rightarrow> [] | Inr cs \<Rightarrow> cs)))
            services))"
proof (induction services arbitrary: acc)
  case Nil
  then show ?case by simp
next
  case (Cons s services)
  from Cons.prems obtain serviceCards where l: "loader s = Inr serviceCards"
    by (cases "loader s") simp_all
  have rest: "\<not> list_ex (\<lambda>s. isl (loader s)) services"
    using Cons.prems by simp
  have hc: "filter has_image xs = filter candidate xs" for xs :: "card list"
    by (simp add: has_image_candidate cong: filter_cong)
  show ?case
    using l by (simp add: Let_def Cons.IH [OF rest] hc)
qed

lemma gather_cards_all:
  assumes "source = Some ''all'' \<or> source = None \<or> source = Some ''''"
  shows "gather_cards source currentCards loader =
           ([ToastInfo ''Loading all cards...''], load_all loader serviceNames [])"
proof -
  have "source \<noteq> Some ''current''" and "source = Some ''all'' \<or> \<not> truthy source"
    using assms by auto
  then show ?thesis by (cases currentCards) simp_all
qed

lemma gather_cards_own:
  assumes "\<not> (source = Some ''all'' \<or> source = None \<or> source = Some '''')"
  shows "gather_cards source None loader = ([], Inl TypeError)"
    and "gather_cards source (Some cs) loader = ([], Inr (filter candidate cs))"
proof -
  have t: "truthy source" and n: "source \<noteq> Some ''all''"
    using assms by (cases source; simp)+
  have hc: "filter has_image cs = filter candidate cs"
    by (simp add: has_image_candidate cong: filter_cong)
  show "gather_cards source None loader = ([], Inl TypeError)"
    using t n by simp
  show "gather_cards source (Some cs) loader = ([], Inr (filter candidate cs))"
    using t n hc by simp
qed

lemma gather_cards_fails:
  assumes "candidates_of source currentCards loader = None"
  shows "isl (snd (gather_cards source currentCards loader))"
proof (cases "source = Some ''all'' \<or> source = None \<or> source = Some ''''")
  case True
  then have "list_ex (\<lambda>s. isl (loader s)) serviceNames"
    using assms unfolding candidates_of_def by (simp split: if_splits)
  then show ?thesis
    unfolding gather_cards_all [OF True] by (simp add: load_all_fails)
next
  case False
  then have "currentCards = None"
    using assms unfolding candidates_of_def by (simp split: option.splits)
  then show ?thesis
    using gather_cards_own(1) [OF False] by simp
qed

lemma gather_cards_succeeds:
  assumes "candidates_of source currentCards loader = Some cs"
  shows "snd (gather_cards source currentCards loader) = Inr cs"
proof (cases "source = Some ''all'' \<or> source = None \<or> source = Some ''''")
  case True
  then have ok: "\<not> list_ex (\<lambda>s. isl (loader s)) serviceNames"
    and cs: "cs = concat (map
            (\<lambda>s. filter candidate
                   (map (\<lambda>c. c\<lparr>sourceService := Some s\<rparr>)
                      (case loader s of Inl e \<Rightarrow> [] | Inr cs \<Rightarrow> cs)))
            serviceNames)"
    using assms unfolding candidates_of_def by (simp_all split: if_splits)
  show ?thesis
    unfolding gather_cards_all [OF True] cs
    using load_all_succeeds [OF ok, of "[]"] by simp
next
  case False
  then obtain cc where cc: "currentCards = Some cc" and cs: "cs = filter candidate cc"
    using assms unfolding candidates_of_def by (auto split: option.splits)
  show ?thesis
    unfolding cc cs using gather_cards_own(2) [OF False] by simp
qed

lemma candidates_of_candidates:
  assumes "candidates_of source currentCards loader = Some cs" and "c \<in> set cs"
  shows "candidate c"
proof (cases "source = Some ''all'' \<or> source = None \<or> source = Some ''''")
  case True
  then have "cs = concat (map
            (\<lambda>s. filter candidate
                   (map (\<lambda>c. c\<lparr>sourceService := Some s\<rparr>)
                      (case loader s of Inl e \<Rightarrow> [] | Inr cs \<Rightarrow> cs)))
            serviceNames)"
    using assms(1) unfolding candidates_of_def by (simp split: if_splits)
  with assms(2) show ?thesis by auto
next
  case False
  then obtain cc where "cs = filter candidate cc"
    using assms(1) unfolding candidates_of_def by (auto split: option.splits)
  with assms(2) show ?thesis by simp
qed

lemma random_index_in_range:
  assumes "0 \<le> random" "random < 1" "0 < n"
  shows "0 \<le> \<lfloor>random * real n\<rfloor> \<and> \<lfloor>random * real n\<rfloor> < int n"
proof -
  have "random * real n < real n" using assms by simp
  then have "\<lfloor>random * real n\<rfloor> < int n" by (simp add: floor_less_iff)
  moreover have "0 \<le> random * real n" using assms by simp
  ultimately show ?thesis by simp
qed

text \<open>
  C6 as stated fails. The card has an \<^verbatim>\<open>image_url\<close> that is not blank and begins with
  \<^verbatim>\<open>https://\<close>, so for the source \<open>current\<close> the candidate set of the claim is not
  empty; no exception occurs, and still \<open>getRandomCard\<close> returns \<^verbatim>\<open>null\<close>. The code
  looks at \<^verbatim>\<open>card.avatar_url || card.image_url\<close> only, and here that is the
  \<^verbatim>\<open>avatar_url\<close>, which is no web address.
\<close>

theorem getRandomCard_avatar_url_decides:
  "stated_candidate (blank_card\<lparr>avatar_url := Some ''data:image/png'',
                                  image_url := Some ''https://example.org/a.png''\<rparr>) \<and>
   getRandomCard (Some ''current'')
     (Some [blank_card\<lparr>avatar_url := Some ''data:image/png'',
                        image_url := Some ''https://example.org/a.png''\<rparr>])
     (\<lambda>s. Inr []) (1 / 2) = (None, [ToastWarning ''No cards available''])"
  by (simp add: stated_candidate_def web_address_def getRandomCard_def has_image_def or_opt_def
      trim_def is_space_def startsWith_def blank_card_def)

text \<open>
  C6, amended. For a value of \<^verbatim>\<open>Math.random()\<close> from 0 (included) to 1 (excluded):
  if an exception occurs while the candidates are gathered (a loader fails for the source
  \<open>all\<close> or for no source; there is no array \<open>currentCards\<close> for any other source) or
  the candidate set is empty, \<open>getRandomCard\<close> returns \<^verbatim>\<open>null\<close>; otherwise it returns
  one of the candidates. A candidate is a card whose image, which is its \<^verbatim>\<open>avatar_url\<close>
  when that is there and not empty and its \<^verbatim>\<open>image_url\<close> otherwise, is not blank and
  begins with \<^verbatim>\<open>http://\<close> or \<^verbatim>\<open>https://\<close>. For the source \<open>current\<close> the
  candidate set is the candidates among \<open>currentCards\<close>; for the source \<open>all\<close> it is
  the candidates among the cards of all services, each marked with its service.
\<close>

theorem getRandomCard_null_or_candidate:
  assumes "0 \<le> random" and "random < 1"
  shows "(candidates_of source currentCards loadServiceIndexFunc = None \<longrightarrow>
            fst (getRandomCard source currentCards loadServiceIndexFunc random) = None) \<and>
         (candidates_of source currentCards loadServiceIndexFunc = Some [] \<longrightarrow>
            fst (getRandomCard source currentCards loadServiceIndexFunc random) = None) \<and>
         (\<forall>cs. candidates_of source currentCards loadServiceIndexFunc = Some cs \<and> cs \<noteq> [] \<longrightarrow>
            (\<exists>c \<in> set cs.
               fst (getRandomCard source currentCards loadServiceIndexFunc random) = Some c \<and>
               candidate c))"
proof (intro conjI allI impI)
  assume "candidates_of source currentCards loadServiceIndexFunc = None"
  then have "isl (snd (gather_cards source currentCards loadServiceIndexFunc))"
    by (rule gather_cards_fails)
  then show "fst (getRandomCard source currentCards loadServiceIndexFunc random) = None"
    by (cases "gather_cards source currentCards loadServiceIndexFunc")
      (auto simp: getRandomCard_def on_catch_def isl_def)
next
  assume "candidates_of source currentCards loadServiceIndexFunc = Some []"
  then have "snd (gather_cards source currentCards loadServiceIndexFunc) = Inr []"
    by (rule gather_cards_succeeds)
  then show "fst (getRandomCard source currentCards loadServiceIndexFunc random) = None"
    by (cases "gather_cards source currentCards loadServiceIndexFunc")
      (simp add: getRandomCard_def)
next
  fix cs
  assume a: "candidates_of source currentCards loadServiceIndexFunc = Some cs \<and> cs \<noteq> []"
  then have g: "snd (gather_cards source currentCards loadServiceIndexFunc) = Inr cs"
    by (simp add: gather_cards_succeeds)
  have idx: "0 \<le> \<lfloor>random * real (length cs)\<rfloor> \<and>
      \<lfloor>random * real (length cs)\<rfloor> < int (length cs)"
    using random_index_in_range [OF assms, of "length cs"] a by simp
  then have pick: "fst (getRandomCard source currentCards loadServiceIndexFunc random) =
      Some (cs ! nat \<lfloor>random * real (length cs)\<rfloor>)"
    using g a
    by (cases "gather_cards source currentCards loadServiceIndexFunc")
      (simp add: getRandomCard_def Let_def)
  have mem: "cs ! nat \<lfloor>random * real (length cs)\<rfloor> \<in> set cs"
    using idx by (simp add: nat_less_iff)
  then have "candidate (cs ! nat \<lfloor>random * real (length cs)\<rfloor>)"
    using a candidates_of_candidates by blast
  with pick mem
  show "\<exists>c \<in> set cs.
      fst (getRandomCard source currentCards loadServiceIndexFunc random) = Some c \<and> candidate c"
    by blast
qed

theorem getRandomCard_null_or_candidate_witness:
  "(0::real) \<le> 1 / 2 \<and> (1 / 2 ::real) < 1 \<and>
   candidates_of (Some ''current'') (Some [al, pic, bob_x]) (\<lambda>s. Inl (Rejected ''offline'')) =
     Some [pic] \<and>
   fst (getRandomCard (Some ''current'') (Some [al, pic, bob_x])
          (\<lambda>s. Inl (Rejected ''offline'')) (1 / 2)) = Some pic \<and>
   candidates_of (Some ''current'') (Some [al, bob_x]) (\<lambda>s. Inl (Rejected ''offline'')) =
     Some [] \<and>
   fst (getRandomCard (Some ''current'') (Some [al, bob_x])
          (\<lambda>s. Inl (Rejected ''offline'')) (1 / 2)) = None \<and>
   candidates_of (Some ''all'') (Some [pic]) (\<lambda>s. Inl (Rejected ''offline'')) = None \<and>
   fst (getRandomCard (Some ''all'') (Some [pic])
          (\<lambda>s. Inl (Rejected ''offline'')) (1 / 2)) = None \<and>
   candidates_of None None (\<lambda>s. if s = ''chub'' then Inr [al, pic] else Inr []) =
     Some [pic\<lparr>sourceService := Some ''chub''\<rparr>] \<and>
   fst (getRandomCard None None
          (\<lambda>s. if s = ''chub'' then Inr [al, pic] else Inr []) (1 / 2)) =
     Some (pic\<lparr>sourceService := Some ''chub''\<rparr>) \<and>
   fst (getRandomCard (Some ''all'') (Some [bob_x])
          (\<lambda>s. if s = ''catbox'' then Inr [pic, al] else Inr []) (1 / 2)) =
     Some (pic\<lparr>sourceService := Some ''catbox''\<rparr>)"
proof -
  have one: "candidates_of (Some ''current'') (Some [al, pic, bob_x])
      (\<lambda>s. Inl (Rejected ''offline'')) = Some [pic]"
    by (simp add: candidates_of_def candidate_def card_image_def web_address_def trim_def
        is_space_def al_def pic_def bob_x_def blank_card_def)
  have none: "candidates_of (Some ''current'') (Some [al, bob_x])
      (\<lambda>s. Inl (Rejected ''offline'')) = Some []"
    by (simp add: candidates_of_def candidate_def card_image_def al_def bob_x_def blank_card_def)
  have failed: "candidates_of (Some ''all'') (Some [pic]) (\<lambda>s. Inl (Rejected ''offline'')) = None"
    by (simp add: candidates_of_def serviceNames_def)
  have loaded: "candidates_of None None (\<lambda>s. if s = ''chub'' then Inr [al, pic] else Inr []) =
      Some [pic\<lparr>sourceService := Some ''chub''\<rparr>]"
    by (simp add: candidates_of_def serviceNames_def candidate_def card_image_def
        web_address_def trim_def is_space_def al_def pic_def blank_card_def)
  have all: "candidates_of (Some ''all'') (Some [bob_x])
      (\<lambda>s. if s = ''catbox'' then Inr [pic, al] else Inr []) =
      Some [pic\<lparr>sourceService := Some ''catbox''\<rparr>]"
    by (simp add: candidates_of_def serviceNames_def candidate_def card_image_def
        web_address_def trim_def is_space_def al_def pic_def blank_card_def)
  show ?thesis
    using one none failed loaded all
      getRandomCard_null_or_candidate [of "1 / 2" "Some ''current''" "Some [al, pic, bob_x]"
        "\<lambda>s. Inl (Rejected ''offline'')"]
      getRandomCard_null_or_candidate [of "1 / 2" "Some ''current''" "Some [al, bob_x]"
        "\<lambda>s. Inl (Rejected ''offline'')"]
      getRandomCard_null_or_candidate [of "1 / 2" "Some ''all''" "Some [pic]"
        "\<lambda>s. Inl (Rejected ''offline'')"]
      getRandomCard_null_or_candidate [of "1 / 2" None None
        "\<lambda>s. if s = ''chub'' then Inr [al, pic] else Inr []"]
      getRandomCard_null_or_candidate [of "1 / 2" "Some ''all''" "Some [bob_x]"
        "\<lambda>s. if s = ''catbox'' then Inr [pic, al] else Inr []"]
    by simp
qed

section \<open>The Chub token in local storage\<close>

text \<open>\<open>trim\<close> leaves nothing to trim.\<close>

lemma rev_dropWhile_rev:
  "rev (dropWhile P (rev u)) = take (length u - length (takeWhile P (rev u))) u"
  by (simp add: dropWhile_eq_drop rev_drop)

lemma trim_no_leading_space: "dropWhile is_space (trim s) = trim s"
proof -
  define u where "u = dropWhile is_space s"
  have u: "u = [] \<or> \<not> is_space (hd u)"
    unfolding u_def by (metis dropWhile_eq_Nil_conv hd_dropWhile)
  have "trim s = rev (dropWhile is_space (rev u))"
    by (simp add: trim_def u_def)
  then have tk: "trim s = take (length u - length (takeWhile is_space (rev u))) u"
    by (simp only: rev_dropWhile_rev)
  then have "trim s = [] \<or> hd (trim s) = hd u"
    by (metis hd_take take_eq_Nil2 gr0I take_eq_Nil)
  moreover have "trim s \<noteq> [] \<Longrightarrow> u \<noteq> []"
    using tk by auto
  ultimately have "trim s = [] \<or> \<not> is_space (hd (trim s))"
    using u by auto
  then show ?thesis by (simp add: dropWhile_eq_self_iff)
qed

lemma trim_idem: "trim (trim s) = trim s"
proof -
  have "dropWhile is_space (rev (trim s)) = rev (trim s)"
    by (simp add: trim_def)
  then show ?thesis
    using trim_no_leading_space [of s] by (simp add: trim_def [of "trim s"])
qed

lemma trim_Nil: "trim [] = []"
  by (simp add: trim_def)

text \<open>
  C10. For every token \<open>t\<close> whose trim is not empty, after \<open>saveChubToken\<close> the call
  of \<open>getChubToken\<close> gives the trimmed token and \<open>hasChubToken\<close> is true; for a token
  that is \<^verbatim>\<open>null\<close>, empty or white space only, \<open>saveChubToken\<close> removes the stored
  value, so that \<open>getChubToken\<close> gives \<^verbatim>\<open>null\<close> and \<open>hasChubToken\<close> is false; and
  after \<open>clearChubToken\<close> the call of \<open>getChubToken\<close> gives \<^verbatim>\<open>null\<close>. All of them
  work on the key \<open>botBrowser_chubApiToken\<close> of the storage.
\<close>

theorem chub_token_round_trip:
  "(trim t \<noteq> [] \<longrightarrow>
      getChubToken (saveChubToken (Some t) localStorage) = Some (trim t) \<and>
      hasChubToken (saveChubToken (Some t) localStorage)) \<and>
   (token = None \<or> trim (the token) = [] \<longrightarrow>
      getChubToken (saveChubToken token localStorage) = None \<and>
      \<not> hasChubToken (saveChubToken token localStorage)) \<and>
   getChubToken (clearChubToken localStorage) = None"
proof -
  have "t \<noteq> []" if "trim t \<noteq> []"
    using that trim_Nil by auto
  then show ?thesis
    by (cases token)
      (auto simp: saveChubToken_def getChubToken_def hasChubToken_def clearChubToken_def trim_idem)
qed

theorem chub_token_round_trip_witness:
  "trim ''  abc '' \<noteq> [] \<and>
   getChubToken (saveChubToken (Some ''  abc '') Map.empty) = Some ''abc'' \<and>
   hasChubToken (saveChubToken (Some ''  abc '') Map.empty) \<and>
   trim (the (Some ''   '')) = [] \<and>
   getChubToken (saveChubToken (Some ''   '') [CHUB_TOKEN_KEY \<mapsto> ''old'']) = None \<and>
   \<not> hasChubToken (saveChubToken (Some ''   '') [CHUB_TOKEN_KEY \<mapsto> ''old'']) \<and>
   getChubToken (saveChubToken None [CHUB_TOKEN_KEY \<mapsto> ''old'']) = None \<and>
   getChubToken (clearChubToken [CHUB_TOKEN_KEY \<mapsto> ''old'']) = None"
  using chub_token_round_trip [of "''  abc ''" Map.empty None]
    chub_token_round_trip [of "''  abc ''" "[CHUB_TOKEN_KEY \<mapsto> ''old'']" "Some ''   ''"]
    chub_token_round_trip [of "''  abc ''" "[CHUB_TOKEN_KEY \<mapsto> ''old'']" None]
  by (simp add: trim_def is_space_def)

section \<open>The sort parameter of the Chub request\<close>

text \<open>
  C8 as stated fails: \<open>fetchChubCards\<close> does not pass the token \<open>recent\<close> through. The
  \<^verbatim>\<open>sort\<close> parameter of the request is \<open>created_at\<close>, the entry of \<open>SORT_MAP\<close>.
\<close>

theorem sort_token_not_passed_through:
  "map_of (request_params (no_options\<lparr>opt_sort := Some ''recent''\<rparr>)) ''sort'' = Some ''created_at'' \<and>
   map_of (request_params (no_options\<lparr>opt_sort := Some ''recent''\<rparr>)) ''sort'' \<noteq> Some ''recent''"
  by (simp add: request_params_def no_options_def apiSort_def SORT_MAP_def or_str_def)

text \<open>
  C8, amended. For every token among \<open>recent\<close>, \<open>trending\<close>, \<open>rating\<close>, \<open>stars\<close>,
  \<open>downloads\<close>, \<open>favorites\<close>, \<open>newcomer\<close>, \<open>activity\<close> and \<open>default\<close>, the request
  has one \<^verbatim>\<open>sort\<close> parameter, and its value is the entry of \<open>SORT_MAP\<close> for the token:
  the token itself for \<open>trending\<close>, \<open>rating\<close>, \<open>newcomer\<close> and \<open>default\<close>, and
  \<open>created_at\<close>, \<open>star_count\<close>, \<open>download_count\<close>, \<open>n_favorites\<close> and
  \<open>last_activity_at\<close> for \<open>recent\<close>, \<open>stars\<close>, \<open>downloads\<close>, \<open>favorites\<close> and
  \<open>activity\<close>.
\<close>

theorem sort_token_mapped_by_SORT_MAP:
  assumes "sort_token \<in> set [''recent'', ''trending'', ''rating'', ''stars'', ''downloads'',
                              ''favorites'', ''newcomer'', ''activity'', ''default'']"
  shows "filter (\<lambda>p. fst p = ''sort'') (request_params (opts\<lparr>opt_sort := Some sort_token\<rparr>)) =
           [(''sort'', apiSort sort_token)] \<and>
         map_of SORT_MAP sort_token = Some (apiSort sort_token) \<and>
         apiSort sort_token =
           (if sort_token = ''recent'' then ''created_at''
            else if sort_token = ''stars'' then ''star_count''
            else if sort_token = ''downloads'' then ''download_count''
            else if sort_token = ''favorites'' then ''n_favorites''
            else if sort_token = ''activity'' then ''last_activity_at''
            else sort_token)"
proof -
  have params: "filter (\<lambda>p. fst p = ''sort'') (request_params (opts\<lparr>opt_sort := Some sort_token\<rparr>)) =
           [(''sort'', apiSort sort_token)]"
    unfolding request_params_def Let_def by simp
  from assms have "sort_token = ''recent'' \<or> sort_token = ''trending'' \<or>
      sort_token = ''rating'' \<or> sort_token = ''stars'' \<or> sort_token = ''downloads'' \<or>
      sort_token = ''favorites'' \<or> sort_token = ''newcomer'' \<or> sort_token = ''activity'' \<or>
      sort_token = ''default''"
    by simp
  then have "map_of SORT_MAP sort_token = Some (apiSort sort_token) \<and>
         apiSort sort_token =
           (if sort_token = ''recent'' then ''created_at''
            else if sort_token = ''stars'' then ''star_count''
            else if sort_token = ''downloads'' then ''download_count''
            else if sort_token = ''favorites'' then ''n_favorites''
            else if sort_token = ''activity'' then ''last_activity_at''
            else sort_token)"
    by (elim disjE) (simp_all add: apiSort_def SORT_MAP_def or_str_def)
  with params show ?thesis by simp
qed

theorem sort_token_mapped_by_SORT_MAP_witness:
  "''stars'' \<in> set [''recent'', ''trending'', ''rating'', ''stars'', ''downloads'',
                     ''favorites'', ''newcomer'', ''activity'', ''default''] \<and>
   filter (\<lambda>p. fst p = ''sort'') (request_params (no_options\<lparr>opt_sort := Some ''stars''\<rparr>)) =
     [(''sort'', ''star_count'')] \<and>
   request_url (no_options\<lparr>opt_sort := Some ''stars''\<rparr>) =
     ''https://api.chub.ai/search?first=200&sort=star_count''"
proof -
  have url: "request_url (no_options\<lparr>opt_sort := Some ''stars''\<rparr>) =
     ''https://api.chub.ai/search?first=200&sort=star_count''"
    by (simp add: request_url_def request_params_def no_options_def apiSort_def SORT_MAP_def
        or_str_def CHUB_API_BASE_def params_toString_def form_encode_def form_encode_char_def
        nat_toString.simps digit_char_def)
  show ?thesis
    using url sort_token_mapped_by_SORT_MAP [of "''stars''" no_options]
    by simp
qed

section \<open>transformChubCard\<close>

text \<open>
  \<open>transformChubCard\<close> throws exactly for the nodes that are not transformable, and
  what it throws is a \<open>TypeError\<close>.
\<close>

lemma as_strings_Inr: "(\<forall>t \<in> set ts. \<exists>s. t = JStr s) \<Longrightarrow> \<exists>ss. as_strings ts = Inr ss"
proof (induction ts)
  case Nil
  show ?case by simp
next
  case (Cons t ts)
  then obtain s ss where "t = JStr s" and "as_strings ts = Inr ss" by auto
  then show ?case by simp
qed

lemma as_strings_Inl: "\<not> (\<forall>t \<in> set ts. \<exists>s. t = JStr s) \<Longrightarrow> as_strings ts = Inl TypeError"
proof (induction ts)
  case Nil
  then show ?case by simp
next
  case (Cons t ts)
  show ?case
  proof (cases "\<exists>s. t = JStr s")
    case True
    then obtain s where t: "t = JStr s" ..
    with Cons.prems have "\<not> (\<forall>t \<in> set ts. \<exists>s. t = JStr s)" by simp
    then have "as_strings ts = Inl TypeError" by (rule Cons.IH)
    with t show ?thesis by simp
  next
    case False
    then show ?thesis by (cases t) simp_all
  qed
qed

lemma node_topics_cases:
  "(truthy_prop N (field node ''topics'') \<longrightarrow>
        (\<exists>ts. field node ''topics'' = Some (JArr ts) \<and> (\<forall>t \<in> set ts. \<exists>s. t = JStr s)))
   \<Longrightarrow> \<exists>ss. node_topics N node = Inr ss"
  "\<not> (truthy_prop N (field node ''topics'') \<longrightarrow>
        (\<exists>ts. field node ''topics'' = Some (JArr ts) \<and> (\<forall>t \<in> set ts. \<exists>s. t = JStr s)))
   \<Longrightarrow> node_topics N node = Inl TypeError"
proof -
  assume a: "truthy_prop N (field node ''topics'') \<longrightarrow>
        (\<exists>ts. field node ''topics'' = Some (JArr ts) \<and> (\<forall>t \<in> set ts. \<exists>s. t = JStr s))"
  show "\<exists>ss. node_topics N node = Inr ss"
  proof (cases "truthy_prop N (field node ''topics'')")
    case True
    with a obtain ts where "field node ''topics'' = Some (JArr ts)"
      and "\<forall>t \<in> set ts. \<exists>s. t = JStr s" by auto
    then show ?thesis using True as_strings_Inr [of ts] by (simp add: node_topics_def)
  next
    case False
    then show ?thesis by (simp add: node_topics_def)
  qed
next
  assume a: "\<not> (truthy_prop N (field node ''topics'') \<longrightarrow>
        (\<exists>ts. field node ''topics'' = Some (JArr ts) \<and> (\<forall>t \<in> set ts. \<exists>s. t = JStr s)))"
  then have t: "truthy_prop N (field node ''topics'')" by simp
  show "node_topics N node = Inl TypeError"
  proof (cases "field node ''topics''")
    case None
    with t show ?thesis by (simp add: truthy_prop_def)
  next
    case (Some v)
    show ?thesis
    proof (cases v)
      case (JArr ts)
      with a Some have "\<not> (\<forall>t \<in> set ts. \<exists>s. t = JStr s)" by simp
      then have "as_strings ts = Inl TypeError" by (rule as_strings_Inl)
      with t Some JArr show ?thesis by (simp add: node_topics_def)
    qed (use t Some in \<open>simp_all add: node_topics_def\<close>)
  qed
qed

lemma falsy_printable: "\<not> truthy_value N v \<Longrightarrow> printable v"
  by (cases v) simp_all

lemma template_text_error: "template_text N a = Inl e \<Longrightarrow> e = TypeError"
  by (auto simp: template_text_def split: option.splits if_splits)

lemma node_topics_error: "node_topics N node = Inl e \<Longrightarrow> e = TypeError"
  using node_topics_cases [of N node] by (cases "truthy_prop N (field node ''topics'') \<longrightarrow>
        (\<exists>ts. field node ''topics'' = Some (JArr ts) \<and> (\<forall>t \<in> set ts. \<exists>s. t = JStr s))") auto

lemma node_card_id_error: "node_card_id N node = Inl e \<Longrightarrow> e = TypeError"
  by (auto simp: node_card_id_def split: if_splits sum.splits dest: template_text_error)

lemma node_desc_preview_error: "node_desc_preview N node = Inl e \<Longrightarrow> e = TypeError"
  by (auto simp: node_desc_preview_def split: if_splits option.splits json.splits)

lemma node_creator_error: "node_creator N node = Inl e \<Longrightarrow> e = TypeError"
  by (auto simp: node_creator_def split: if_splits option.splits json.splits)

lemma transformChubCard_error: "transformChubCard N node = Inl e \<Longrightarrow> e = TypeError"
  by (auto simp: transformChubCard_def Let_def split: if_splits sum.splits
      dest: template_text_error node_topics_error node_card_id_error node_desc_preview_error
        node_creator_error)

lemma transformChubCard_succeeds:
  assumes "transformable N node"
  shows "\<exists>card. transformChubCard N node = Inr card"
proof -
  from assms have nn: "node \<noteq> JNull"
    and t: "truthy_prop N (field node ''topics'') \<longrightarrow>
        (\<exists>ts. field node ''topics'' = Some (JArr ts) \<and> (\<forall>t \<in> set ts. \<exists>s. t = JStr s))"
    and p: "truthy_prop N (field node ''fullPath'') \<longrightarrow> (\<exists>p. field node ''fullPath'' = Some (JStr p))"
    and i: "\<not> truthy_prop N (field node ''fullPath'') \<longrightarrow>
        (\<forall>v. field node ''id'' = Some v \<longrightarrow> printable v)"
    and d: "\<not> truthy_prop N (field node ''tagline'') \<longrightarrow>
        field node ''description'' = None \<or> field node ''description'' = Some JNull \<or>
        (\<exists>d. field node ''description'' = Some (JStr d))"
    unfolding transformable_def by blast+
  obtain topics where 1: "node_topics N node = Inr topics"
    using node_topics_cases(1) [OF t] by blast
  have path: "\<exists>x. template_text N (field node ''fullPath'') = Inr x"
  proof (cases "truthy_prop N (field node ''fullPath'')")
    case True
    with p show ?thesis by (auto simp: template_text_def)
  next
    case False
    then show ?thesis
      by (cases "field node ''fullPath''")
        (auto simp: template_text_def truthy_prop_def dest: falsy_printable)
  qed
  then obtain path_text where 5: "template_text N (field node ''fullPath'') = Inr path_text" ..
  have "\<exists>x. node_card_id N node = Inr x"
  proof (cases "truthy_prop N (field node ''fullPath'')")
    case True
    with 5 show ?thesis by (simp add: node_card_id_def)
  next
    case False
    with i have "\<forall>v. field node ''id'' = Some v \<longrightarrow> printable v" by simp
    then have "\<exists>x. template_text N (field node ''id'') = Inr x"
      by (cases "field node ''id''") (simp_all add: template_text_def)
    with False show ?thesis by (auto simp: node_card_id_def)
  qed
  then obtain the_id where 2: "node_card_id N node = Inr the_id" ..
  have "\<exists>x. node_desc_preview N node = Inr x"
  proof (cases "truthy_prop N (field node ''tagline'')")
    case True
    then show ?thesis by (simp add: node_desc_preview_def)
  next
    case False
    with d show ?thesis by (auto simp: node_desc_preview_def)
  qed
  then obtain preview where 3: "node_desc_preview N node = Inr preview" ..
  have "\<exists>x. node_creator N node = Inr x"
    using p by (auto simp: node_creator_def)
  then obtain the_creator where 4: "node_creator N node = Inr the_creator" ..
  show ?thesis
    using nn 1 2 3 4 5 by (simp add: transformChubCard_def Let_def)
qed

lemma transformChubCard_fails:
  assumes "\<not> transformable N node"
  shows "transformChubCard N node = Inl TypeError"
proof -
  have "isl (transformChubCard N node)"
  proof (cases "node = JNull")
    case True
    then show ?thesis by (simp add: transformChubCard_def)
  next
    case nn: False
    show ?thesis
    proof (cases "truthy_prop N (field node ''topics'') \<longrightarrow>
        (\<exists>ts. field node ''topics'' = Some (JArr ts) \<and> (\<forall>t \<in> set ts. \<exists>s. t = JStr s))")
      case False
      then have "node_topics N node = Inl TypeError" by (rule node_topics_cases(2))
      then show ?thesis using nn by (simp add: transformChubCard_def)
    next
      case t: True
      show ?thesis
      proof (cases "truthy_prop N (field node ''fullPath'') \<longrightarrow>
          (\<exists>p. field node ''fullPath'' = Some (JStr p))")
        case False
        then have "node_creator N node = Inl TypeError"
          by (auto simp: node_creator_def split: option.splits json.splits)
        then show ?thesis
          using nn by (simp add: transformChubCard_def Let_def split: sum.splits)
      next
        case p: True
        show ?thesis
        proof (cases "\<not> truthy_prop N (field node ''fullPath'') \<longrightarrow>
            (\<forall>v. field node ''id'' = Some v \<longrightarrow> printable v)")
          case False
          then have "node_card_id N node = Inl TypeError"
            by (auto simp: node_card_id_def template_text_def)
          then show ?thesis
            using nn by (simp add: transformChubCard_def Let_def split: sum.splits)
        next
          case i: True
          with assms nn t p have "\<not> (\<not> truthy_prop N (field node ''tagline'') \<longrightarrow>
              field node ''description'' = None \<or> field node ''description'' = Some JNull \<or>
              (\<exists>d. field node ''description'' = Some (JStr d)))"
            unfolding transformable_def by blast
          then have "node_desc_preview N node = Inl TypeError"
            by (auto simp: node_desc_preview_def split: option.splits json.splits)
          then show ?thesis
            using nn by (simp add: transformChubCard_def Let_def split: sum.splits)
        qed
      qed
    qed
  qed
  then obtain e where "transformChubCard N node = Inl e"
    by (cases "transformChubCard N node") simp_all
  then show ?thesis using transformChubCard_error by blast
qed

lemma map_throwing_succeeds:
  "list_all (transformable N) node_list \<Longrightarrow>
   \<exists>cards. map_throwing (transformChubCard N) node_list = Inr cards \<and>
           map (transformChubCard N) node_list = map Inr cards"
proof (induction node_list)
  case Nil
  show ?case by simp
next
  case (Cons node node_list)
  then obtain card cards where "transformChubCard N node = Inr card"
    and "map_throwing (transformChubCard N) node_list = Inr cards"
    and "map (transformChubCard N) node_list = map Inr cards"
    using transformChubCard_succeeds [of N node] by auto
  then show ?case by simp
qed

lemma map_throwing_fails:
  "\<not> list_all (transformable N) node_list \<Longrightarrow>
   map_throwing (transformChubCard N) node_list = Inl TypeError"
proof (induction node_list)
  case Nil
  then show ?case by simp
next
  case (Cons node node_list)
  show ?case
  proof (cases "transformable N node")
    case True
    then obtain card where c: "transformChubCard N node = Inr card"
      using transformChubCard_succeeds by blast
    from True Cons.prems have "\<not> list_all (transformable N) node_list" by simp
    then have "map_throwing (transformChubCard N) node_list = Inl TypeError" by (rule Cons.IH)
    with c show ?thesis by simp
  next
    case False
    then show ?thesis by (simp add: transformChubCard_fails)
  qed
qed

text \<open>
  Two nodes transformed: topics, path and rating are taken over, an empty
  \<^verbatim>\<open>createdAt\<close> becomes \<^verbatim>\<open>null\<close>; without a path the id is built from
  \<^verbatim>\<open>node.id\<close>, and the address of the image from \<^verbatim>\<open>null\<close>.
\<close>

lemma transformChubCard_example:
  "transformChubCard int_numbers elf_node =
     Inr \<lparr>card_id = ''https://chub.ai/characters/ann/elf'',
          chub_service = ''chub'', chub_name = JStr ''Elf'',
          chub_desc_preview = JStr '''', chub_desc_search = JStr '''',
          chub_tags = [''Fantasy'', ''NSFW''], chub_creator = ''ann'',
          chub_image_url = ''https://chub.ai/characters/ann/elf'',
          chub_avatar_url = JStr '''', chub_possibleNsfw = JBool True,
          chubMeta =
            \<lparr>starCount = JNum 0, rating = JNum 4, ratingCount = JNum 0,
             createdAt = JNull, lastActivityAt = JNull, nChats = JNum 0,
             nMessages = JNum 0, nFavorites = JNum 0, forksCount = JNum 0,
             nTokens = JNum 0\<rparr>,
          chunk = JNull, chunk_idx = JNum 0, chub_sourceService = ''chub''\<rparr> \<and>
   card_id (projr (transformChubCard int_numbers
      (JObj [(''id'', JArr [JNum 7, JNull, JStr ''x'']), (''fullPath'', JNull)]))) = ''chub-7,,x'' \<and>
   chub_image_url (projr (transformChubCard int_numbers
      (JObj [(''id'', JArr [JNum 7, JNull, JStr ''x'']), (''fullPath'', JNull)]))) =
     ''https://chub.ai/characters/null''"
  by code_simp

section \<open>fetchChubCards\<close>

text \<open>The value of the \<^verbatim>\<open>try\<close> block, case by case.\<close>

lemma has_nodes_unique: "has_nodes parsed xs \<Longrightarrow> has_nodes parsed ys \<Longrightarrow> xs = ys"
  by (auto simp: has_nodes_def)

lemma read_response_rejected: "read_response N (Inl e) = Inl e"
  by (simp add: read_response_def)

lemma read_response_not_ok:
  "\<not> ok resp \<Longrightarrow>
   read_response N (Inr resp) =
     Inl (Error (''Chub API error: '' @ nat_toString (status resp) @ '' '' @ statusText resp))"
  by (simp add: read_response_def)

lemma read_response_not_json:
  "ok resp \<Longrightarrow> json resp = Inl e \<Longrightarrow> read_response N (Inr resp) = Inl e"
  by (simp add: read_response_def)

lemma read_response_no_nodes:
  assumes "ok resp" and "json resp = Inr parsed" and "\<not> (\<exists>node_list. has_nodes parsed node_list)"
  shows "read_response N (Inr resp) =
     Inl (if parsed = JNull then TypeError else Error ''Invalid response format from Chub API'')"
proof (cases "parsed = JNull")
  case True
  with assms(1,2) show ?thesis by (simp add: read_response_def)
next
  case nn: False
  show ?thesis
  proof (cases "truthy_prop N (field parsed ''data'')")
    case False
    with nn assms(1,2) show ?thesis by (simp add: read_response_def)
  next
    case True
    then obtain dd where dd: "field parsed ''data'' = Some dd"
      by (cases "field parsed ''data''") (simp_all add: truthy_prop_def)
    have "\<not> (\<exists>node_list. field dd ''nodes'' = Some (JArr node_list))"
    proof
      assume "\<exists>node_list. field dd ''nodes'' = Some (JArr node_list)"
      then obtain node_list where n: "field dd ''nodes'' = Some (JArr node_list)" ..
      then obtain kvs where "dd = JObj kvs" by (cases dd) simp_all
      with dd n have "has_nodes parsed node_list" by (auto simp: has_nodes_def)
      with assms(3) show False by blast
    qed
    then have "(case field dd ''nodes'' of Some (JArr node_list) \<Rightarrow> f node_list | _ \<Rightarrow> g) = g"
      for f :: "'a json list \<Rightarrow> error + 'a fetch_result" and g
      by (auto split: option.splits json.splits)
    with nn True dd assms(1,2) show ?thesis by (simp add: read_response_def)
  qed
qed

lemma read_response_bad_node:
  assumes "ok resp" and "json resp = Inr parsed" and "has_nodes parsed node_list"
    and "\<not> list_all (transformable N) node_list"
  shows "read_response N (Inr resp) = Inl TypeError"
proof -
  from assms(3) obtain kvs where dd: "field parsed ''data'' = Some (JObj kvs)"
    and n: "field (JObj kvs) ''nodes'' = Some (JArr node_list)"
    unfolding has_nodes_def by blast
  have nn: "parsed \<noteq> JNull" using dd by auto
  have t: "truthy_prop N (field parsed ''data'')" using dd by (simp add: truthy_prop_def)
  have f: "map_throwing (transformChubCard N) node_list = Inl TypeError"
    using assms(4) by (rule map_throwing_fails)
  show ?thesis
    unfolding read_response_def using assms(1,2) nn t dd n f by (simp del: field.simps)
qed

lemma read_response_good:
  assumes "ok resp" and "json resp = Inr parsed"
    and dd: "field parsed ''data'' = Some (JObj kvs)"
    and n: "field (JObj kvs) ''nodes'' = Some (JArr node_list)"
    and "list_all (transformable N) node_list"
  shows "\<exists>cards. map (transformChubCard N) node_list = map Inr cards \<and>
     read_response N (Inr resp) =
       Inr \<lparr>res_cards = cards,
            res_cursor = (if truthy_prop N (field (JObj kvs) ''cursor'')
                          then the (field (JObj kvs) ''cursor'') else JNull),
            res_count = (if truthy_prop N (field (JObj kvs) ''count'')
                         then the (field (JObj kvs) ''count'')
                         else JNum (num_of_nat N (length node_list)))\<rparr>"
proof -
  obtain cards where c: "map_throwing (transformChubCard N) node_list = Inr cards"
    and m: "map (transformChubCard N) node_list = map Inr cards"
    using map_throwing_succeeds [OF assms(5)] by blast
  have len: "length cards = length node_list"
    using m by (metis length_map)
  have nn: "parsed \<noteq> JNull" using dd by auto
  have t: "truthy_prop N (field parsed ''data'')" using dd by (simp add: truthy_prop_def)
  have ov: "or_value N a d = (if truthy_prop N a then the a else d)" for a d
    by (cases a) (simp_all add: or_value_def truthy_prop_def)
  have "read_response N (Inr resp) =
       Inr \<lparr>res_cards = cards,
            res_cursor = (if truthy_prop N (field (JObj kvs) ''cursor'')
                          then the (field (JObj kvs) ''cursor'') else JNull),
            res_count = (if truthy_prop N (field (JObj kvs) ''count'')
                         then the (field (JObj kvs) ''count'')
                         else JNum (num_of_nat N (length node_list)))\<rparr>"
    unfolding read_response_def using assms(1,2) nn t dd n c len
    by (simp add: ov del: field.simps)
  with m show ?thesis by blast
qed

lemma read_response_fails: "isl (read_response N fetched) \<longleftrightarrow> fetch_fails N fetched"
proof (cases fetched)
  case (Inl e)
  then show ?thesis
    by (simp add: read_response_rejected fetch_fails_def stated_failure_def)
next
  case (Inr resp)
  show ?thesis
  proof (cases "ok resp")
    case False
    with Inr show ?thesis
      by (simp add: read_response_not_ok fetch_fails_def stated_failure_def)
  next
    case ok: True
    show ?thesis
    proof (cases "json resp")
      case (Inl e)
      with Inr ok show ?thesis
        by (simp add: read_response_not_json fetch_fails_def stated_failure_def)
    next
      case parsed: (Inr parsed)
      show ?thesis
      proof (cases "\<exists>node_list. has_nodes parsed node_list")
        case False
        with Inr ok parsed show ?thesis
          by (simp add: read_response_no_nodes fetch_fails_def stated_failure_def)
      next
        case True
        then obtain node_list where h: "has_nodes parsed node_list" ..
        then obtain kvs where dd: "field parsed ''data'' = Some (JObj kvs)"
          and n: "field (JObj kvs) ''nodes'' = Some (JArr node_list)"
          unfolding has_nodes_def by blast
        have only: "has_nodes parsed xs \<longleftrightarrow> xs = node_list" for xs
          using h has_nodes_unique by blast
        show ?thesis
        proof (cases "list_all (transformable N) node_list")
          case False
          then have "read_response N (Inr resp) = Inl TypeError"
            using read_response_bad_node [OF ok parsed h] by simp
          moreover have "fetch_fails N fetched"
            unfolding fetch_fails_def using Inr parsed h False by blast
          ultimately show ?thesis using Inr by simp
        next
          case True
          then obtain cards r where "read_response N (Inr resp) = Inr r"
            using read_response_good [OF ok parsed dd n] by blast
          moreover have "\<not> fetch_fails N fetched"
            unfolding fetch_fails_def stated_failure_def using Inr ok parsed True h only
            by auto
          ultimately show ?thesis using Inr by simp
        qed
      qed
    qed
  qed
qed

text \<open>
  C7 as stated fails, twice. When the response is not ok, \<open>fetchChubCards\<close> throws and
  its effects are the two lines on the console: it shows no toast. And when the response
  is ok and its body is JSON with an array \<^verbatim>\<open>data.data.nodes\<close>, so that none of the
  three failures of the claim occurs, \<open>fetchChubCards\<close> still throws if a node of the
  array is \<^verbatim>\<open>null\<close>: the nodes are transformed inside the \<^verbatim>\<open>try\<close> block.
\<close>

theorem fetchChubCards_no_toast_and_null_node:
  "fetchChubCards int_numbers no_options Map.empty server_error =
     ([ConsoleLog ''[Bot Browser] Fetching from Chub API (anonymous): https://api.chub.ai/search?first=200&sort=default'',
       ConsoleError ''[Bot Browser] Error fetching from Chub API:''],
      Inl (Error ''Chub API error: 500 Internal Server Error'')) \<and>
   \<not> list_ex is_toast (fst (fetchChubCards int_numbers no_options Map.empty server_error)) \<and>
   \<not> stated_failure (answer [JNull] (request_url no_options) (request_headers Map.empty)) \<and>
   snd (fetchChubCards int_numbers no_options Map.empty (answer [JNull])) = Inl TypeError"
proof -
  have run: "fetchChubCards int_numbers no_options Map.empty server_error =
     ([ConsoleLog ''[Bot Browser] Fetching from Chub API (anonymous): https://api.chub.ai/search?first=200&sort=default'',
       ConsoleError ''[Bot Browser] Error fetching from Chub API:''],
      Inl (Error ''Chub API error: 500 Internal Server Error''))"
    by code_simp
  have node: "snd (fetchChubCards int_numbers no_options Map.empty (answer [JNull])) =
      Inl TypeError"
    by code_simp
  have listed: "\<not> stated_failure (answer [JNull] (request_url no_options) (request_headers Map.empty))"
    by (simp add: stated_failure_def answer_def has_nodes_def)
  show ?thesis
    using node listed unfolding run by simp
qed

text \<open>
  C7, amended. \<open>fetchChubCards\<close> throws exactly when the request itself fails, the
  response is not ok, its body is not JSON, the parsed body has no object
  \<^verbatim>\<open>data.data\<close> with an array \<^verbatim>\<open>data.data.nodes\<close>, or a node of that array cannot be
  transformed (the node is \<^verbatim>\<open>null\<close>; its topics are truthy but no array of strings;
  its \<^verbatim>\<open>fullPath\<close> is truthy but no string; it has no truthy \<^verbatim>\<open>fullPath\<close> and its
  \<^verbatim>\<open>id\<close> cannot be turned into a string; or it has no truthy tagline and its
  description is neither missing, \<^verbatim>\<open>null\<close> nor a string). The exception is caught,
  logged with \<^verbatim>\<open>console.error\<close> and thrown again as it is: the rejection of the
  request or of the parsing, the error with the status of the response, the error for
  the format, or a \<open>TypeError\<close>. \<open>fetchChubCards\<close> itself shows no toast, whether it
  fails or not. On success it returns the transformed nodes, the cursor of the response
  (\<^verbatim>\<open>null\<close> when it is missing or falsy, as the empty string is) and the count of
  the response, or the number of cards when the count is missing or falsy, as 0 is.
\<close>

theorem fetchChubCards_fails_logs_rethrows:
  "(let fetched = fetch (request_url opts) (request_headers localStorage);
        effects = fst (fetchChubCards N opts localStorage fetch);
        result = snd (fetchChubCards N opts localStorage fetch)
    in (isl result \<longleftrightarrow> fetch_fails N fetched) \<and>
       (\<forall>e. fetched = Inl e \<longrightarrow> result = Inl e) \<and>
       (\<forall>resp. fetched = Inr resp \<and> \<not> ok resp \<longrightarrow>
          result = Inl (Error (''Chub API error: '' @ nat_toString (status resp) @ '' '' @
                               statusText resp))) \<and>
       (\<forall>resp e. fetched = Inr resp \<and> ok resp \<and> json resp = Inl e \<longrightarrow> result = Inl e) \<and>
       (\<forall>resp parsed. fetched = Inr resp \<and> ok resp \<and> json resp = Inr parsed \<and>
          \<not> (\<exists>node_list. has_nodes parsed node_list) \<longrightarrow>
          result = Inl (if parsed = JNull then TypeError
                        else Error ''Invalid response format from Chub API'')) \<and>
       (\<forall>resp parsed node_list. fetched = Inr resp \<and> ok resp \<and> json resp = Inr parsed \<and>
          has_nodes parsed node_list \<and> \<not> list_all (transformable N) node_list \<longrightarrow>
          result = Inl TypeError) \<and>
       (\<forall>resp parsed kvs node_list. fetched = Inr resp \<and> ok resp \<and> json resp = Inr parsed \<and>
          field parsed ''data'' = Some (JObj kvs) \<and>
          field (JObj kvs) ''nodes'' = Some (JArr node_list) \<and>
          list_all (transformable N) node_list \<longrightarrow>
          (\<exists>cards. map (transformChubCard N) node_list = map Inr cards \<and>
             result =
               Inr \<lparr>res_cards = cards,
                    res_cursor = (if truthy_prop N (field (JObj kvs) ''cursor'')
                                  then the (field (JObj kvs) ''cursor'') else JNull),
                    res_count = (if truthy_prop N (field (JObj kvs) ''count'')
                                 then the (field (JObj kvs) ''count'')
                                 else JNum (num_of_nat N (length node_list)))\<rparr>)) \<and>
       effects =
         (if truthy (getChubToken localStorage)
          then ConsoleLog (''[Bot Browser] Fetching from Chub API (authenticated): '' @
                           request_url opts)
          else ConsoleLog (''[Bot Browser] Fetching from Chub API (anonymous): '' @
                           request_url opts)) #
         (if isl result then [ConsoleError ''[Bot Browser] Error fetching from Chub API:'']
          else []) \<and>
       \<not> list_ex is_toast effects)"
proof -
  let ?fetched = "fetch (request_url opts) (request_headers localStorage)"
  let ?result = "snd (fetchChubCards N opts localStorage fetch)"
  let ?effects = "fst (fetchChubCards N opts localStorage fetch)"
  have res: "?result = read_response N ?fetched"
    by (simp add: fetchChubCards_def Let_def split: sum.splits)
  have fx: "?effects =
      (if truthy (getChubToken localStorage)
       then ConsoleLog (''[Bot Browser] Fetching from Chub API (authenticated): '' @ request_url opts)
       else ConsoleLog (''[Bot Browser] Fetching from Chub API (anonymous): '' @ request_url opts)) #
      (if isl ?result then [ConsoleError ''[Bot Browser] Error fetching from Chub API:''] else [])"
    by (simp add: fetchChubCards_def Let_def split: sum.splits)
  have toast: "\<not> list_ex is_toast ?effects"
    unfolding fx by simp
  have 1: "isl ?result \<longleftrightarrow> fetch_fails N ?fetched"
    unfolding res by (rule read_response_fails)
  have 2: "\<forall>e. ?fetched = Inl e \<longrightarrow> ?result = Inl e"
    unfolding res by (simp add: read_response_rejected)
  have 3: "\<forall>resp. ?fetched = Inr resp \<and> \<not> ok resp \<longrightarrow>
          ?result = Inl (Error (''Chub API error: '' @ nat_toString (status resp) @ '' '' @
                               statusText resp))"
    unfolding res by (simp add: read_response_not_ok)
  have 4: "\<forall>resp e. ?fetched = Inr resp \<and> ok resp \<and> json resp = Inl e \<longrightarrow> ?result = Inl e"
    unfolding res by (simp add: read_response_not_json)
  have 5: "\<forall>resp parsed. ?fetched = Inr resp \<and> ok resp \<and> json resp = Inr parsed \<and>
          \<not> (\<exists>node_list. has_nodes parsed node_list) \<longrightarrow>
          ?result = Inl (if parsed = JNull then TypeError
                        else Error ''Invalid response format from Chub API'')"
    unfolding res using read_response_no_nodes [where N = N] by metis
  have 6: "\<forall>resp parsed node_list. ?fetched = Inr resp \<and> ok resp \<and> json resp = Inr parsed \<and>
          has_nodes parsed node_list \<and> \<not> list_all (transformable N) node_list \<longrightarrow>
          ?result = Inl TypeError"
    unfolding res using read_response_bad_node [where N = N] by metis
  have 7: "\<forall>resp parsed kvs node_list. ?fetched = Inr resp \<and> ok resp \<and> json resp = Inr parsed \<and>
          field parsed ''data'' = Some (JObj kvs) \<and>
          field (JObj kvs) ''nodes'' = Some (JArr node_list) \<and>
          list_all (transformable N) node_list \<longrightarrow>
          (\<exists>cards. map (transformChubCard N) node_list = map Inr cards \<and>
             ?result =
               Inr \<lparr>res_cards = cards,
                    res_cursor = (if truthy_prop N (field (JObj kvs) ''cursor'')
                                  then the (field (JObj kvs) ''cursor'') else JNull),
                    res_count = (if truthy_prop N (field (JObj kvs) ''count'')
                                 then the (field (JObj kvs) ''count'')
                                 else JNum (num_of_nat N (length node_list)))\<rparr>)"
  proof (intro allI impI)
    fix resp parsed kvs node_list
    assume a: "?fetched = Inr resp \<and> ok resp \<and> json resp = Inr parsed \<and>
          field parsed ''data'' = Some (JObj kvs) \<and>
          field (JObj kvs) ''nodes'' = Some (JArr node_list) \<and>
          list_all (transformable N) node_list"
    then have "ok resp" "json resp = Inr parsed" "field parsed ''data'' = Some (JObj kvs)"
      "field (JObj kvs) ''nodes'' = Some (JArr node_list)" "list_all (transformable N) node_list"
      by blast+
    from read_response_good [OF this] a
    show "\<exists>cards. map (transformChubCard N) node_list = map Inr cards \<and>
             ?result =
               Inr \<lparr>res_cards = cards,
                    res_cursor = (if truthy_prop N (field (JObj kvs) ''cursor'')
                                  then the (field (JObj kvs) ''cursor'') else JNull),
                    res_count = (if truthy_prop N (field (JObj kvs) ''count'')
                                 then the (field (JObj kvs) ''count'')
                                 else JNum (num_of_nat N (length node_list)))\<rparr>"
      unfolding res by simp
  qed
  show ?thesis
    unfolding Let_def using 1 2 3 4 5 6 7 fx toast by blast
qed

theorem fetchChubCards_fails_logs_rethrows_witness:
  "snd (fetchChubCards int_numbers no_options Map.empty (\<lambda>url headers. Inl (Rejected ''offline''))) =
     Inl (Rejected ''offline'') \<and>
   snd (fetchChubCards int_numbers no_options Map.empty server_error) =
     Inl (Error (''Chub API error: '' @ nat_toString 500 @ '' '' @ ''Internal Server Error'')) \<and>
   snd (fetchChubCards int_numbers no_options Map.empty (answer [JNull])) = Inl TypeError \<and>
   snd (fetchChubCards int_numbers no_options Map.empty
          (answer [elf_node, JObj [(''topics'', JStr ''fantasy'')]])) = Inl TypeError \<and>
   snd (fetchChubCards int_numbers no_options Map.empty (answer [elf_node])) =
     Inr \<lparr>res_cards = [\<lparr>card_id = ''https://chub.ai/characters/ann/elf'',
          chub_service = ''chub'', chub_name = JStr ''Elf'',
          chub_desc_preview = JStr '''', chub_desc_search = JStr '''',
          chub_tags = [''Fantasy'', ''NSFW''], chub_creator = ''ann'',
          chub_image_url = ''https://chub.ai/characters/ann/elf'',
          chub_avatar_url = JStr '''', chub_possibleNsfw = JBool True,
          chubMeta =
            \<lparr>starCount = JNum 0, rating = JNum 4, ratingCount = JNum 0,
             createdAt = JNull, lastActivityAt = JNull, nChats = JNum 0,
             nMessages = JNum 0, nFavorites = JNum 0, forksCount = JNum 0,
             nTokens = JNum 0\<rparr>,
          chunk = JNull, chunk_idx = JNum 0, chub_sourceService = ''chub''\<rparr>],
          res_cursor = JNull, res_count = JNum 1\<rparr> \<and>
   fst (fetchChubCards int_numbers no_options Map.empty (answer [elf_node])) =
     [ConsoleLog (''[Bot Browser] Fetching from Chub API (anonymous): '' @ request_url no_options)]"
proof -
  note T = fetchChubCards_fails_logs_rethrows
    [where opts = no_options and localStorage = Map.empty and N = int_numbers, unfolded Let_def]
  have 1: "snd (fetchChubCards int_numbers no_options Map.empty
      (\<lambda>url headers. Inl (Rejected ''offline''))) = Inl (Rejected ''offline'')"
    using T [of "\<lambda>url headers. Inl (Rejected ''offline'')", THEN conjunct2, THEN conjunct1]
    by simp
  have 2: "snd (fetchChubCards int_numbers no_options Map.empty server_error) =
     Inl (Error (''Chub API error: '' @ nat_toString 500 @ '' '' @ ''Internal Server Error''))"
    using T [of server_error, THEN conjunct2, THEN conjunct2, THEN conjunct1, rule_format,
        of "\<lparr>ok = False, status = 500, statusText = ''Internal Server Error'',
          json = Inl (Rejected ''not JSON'')\<rparr>"]
    by (simp add: server_error_def)
  have bad: "\<not> transformable int_numbers (JObj [(''topics'', JStr ''fantasy'')])"
    by (simp add: transformable_def truthy_prop_def)
  have good: "transformable int_numbers elf_node"
    by (simp add: transformable_def elf_node_def truthy_prop_def)
  have 3: "snd (fetchChubCards int_numbers no_options Map.empty (answer node_list)) = Inl TypeError"
    if "\<not> list_all (transformable int_numbers) node_list" for node_list
    using that T [of "answer node_list", THEN conjunct2, THEN conjunct2, THEN conjunct2,
        THEN conjunct2, THEN conjunct2, THEN conjunct1, rule_format,
        of "\<lparr>ok = True, status = 200, statusText = ''OK'',
          json = Inr (JObj [(''data'', JObj [(''nodes'', JArr node_list), (''cursor'', JStr ''''),
                                            (''count'', JNum 0)])])\<rparr>"
          "JObj [(''data'', JObj [(''nodes'', JArr node_list), (''cursor'', JStr ''''),
                                            (''count'', JNum 0)])]" node_list]
    by (simp add: answer_def has_nodes_def)
  have 4: "\<exists>cards. map (transformChubCard int_numbers) [elf_node] = map Inr cards \<and>
      snd (fetchChubCards int_numbers no_options Map.empty (answer [elf_node])) =
        Inr \<lparr>res_cards = cards, res_cursor = JNull, res_count = JNum 1\<rparr>"
    using good T [of "answer [elf_node]", THEN conjunct2, THEN conjunct2, THEN conjunct2,
        THEN conjunct2, THEN conjunct2, THEN conjunct2, THEN conjunct1, rule_format,
        of "\<lparr>ok = True, status = 200, statusText = ''OK'',
          json = Inr (JObj [(''data'', JObj [(''nodes'', JArr [elf_node]), (''cursor'', JStr ''''),
                                            (''count'', JNum 0)])])\<rparr>"
          "JObj [(''data'', JObj [(''nodes'', JArr [elf_node]), (''cursor'', JStr ''''),
                                            (''count'', JNum 0)])]"
          "[(''nodes'', JArr [elf_node]), (''cursor'', JStr ''''), (''count'', JNum 0)]"
          "[elf_node]"]
    by (simp add: answer_def truthy_prop_def int_numbers_def)
  then have 5: "snd (fetchChubCards int_numbers no_options Map.empty (answer [elf_node])) =
     Inr \<lparr>res_cards = [\<lparr>card_id = ''https://chub.ai/characters/ann/elf'',
          chub_service = ''chub'', chub_name = JStr ''Elf'',
          chub_desc_preview = JStr '''', chub_desc_search = JStr '''',
          chub_tags = [''Fantasy'', ''NSFW''], chub_creator = ''ann'',
          chub_image_url = ''https://chub.ai/characters/ann/elf'',
          chub_avatar_url = JStr '''', chub_possibleNsfw = JBool True,
          chubMeta =
            \<lparr>starCount = JNum 0, rating = JNum 4, ratingCount = JNum 0,
             createdAt = JNull, lastActivityAt = JNull, nChats = JNum 0,
             nMessages = JNum 0, nFavorites = JNum 0, forksCount = JNum 0,
             nTokens = JNum 0\<rparr>,
          chunk = JNull, chunk_idx = JNum 0, chub_sourceService = ''chub''\<rparr>],
          res_cursor = JNull, res_count = JNum 1\<rparr>"
    using transformChubCard_example by auto
  have 6: "fst (fetchChubCards int_numbers no_options Map.empty (answer [elf_node])) =
     [ConsoleLog (''[Bot Browser] Fetching from Chub API (anonymous): '' @ request_url no_options)]"
    using 5 T [of "answer [elf_node]", THEN conjunct2, THEN conjunct2, THEN conjunct2,
        THEN conjunct2, THEN conjunct2, THEN conjunct2, THEN conjunct2, THEN conjunct1]
    by (simp add: getChubToken_def)
  show ?thesis
    using 1 2 3 [of "[JNull]"] 3 [of "[elf_node, JObj [(''topics'', JStr ''fantasy'')]]"] bad 5 6
    by (simp add: transformable_def)
qed

text \<open>
  The copy of the service without the token returns and throws what \<open>fetchChubCards\<close>
  does for the same response, and shows no toast either.
\<close>

lemma fetchChubCards_without_token_same:
  "snd (fetchChubCards_without_token N opts fetch) =
     snd (fetchChubCards N opts localStorage (\<lambda>url headers. fetch url)) \<and>
   \<not> list_ex is_toast (fst (fetchChubCards_without_token N opts fetch))"
  by (simp add: fetchChubCards_without_token_def fetchChubCards_def Let_def split: sum.splits)

end
